theory Spec2Isabelle
  imports Complex_Main "HOL-Library.AList" "HOL-Library.Multiset"
begin

section \<open>JavaScript numbers as the form handlers see them\<close>

text \<open>
  Every metric of an end-of-day form is \<^verbatim>\<open>Number(formData.get(...))\<close>: a JavaScript
  number, which may be \<^verbatim>\<open>NaN\<close> (unparsable text) or an infinity (\<^verbatim>\<open>"Infinity"\<close>,
  \<^verbatim>\<open>"1e999"\<close>). Finite values are modelled by exact rationals: the rounding of binary64
  arithmetic is not part of the model, and \<^verbatim>\<open>-0\<close> is identified with \<^verbatim>\<open>0\<close>
  (no comparison of the handlers tells them apart).
\<close>

datatype jsnum = NaN | NegInf | Fin rat | PosInf

text \<open>\<^verbatim>\<open>a < b\<close>: false whenever an operand is \<^verbatim>\<open>NaN\<close>.\<close>

fun js_lt :: "jsnum \<Rightarrow> jsnum \<Rightarrow> bool" where
  "js_lt (Fin a) (Fin b) = (a < b)"
| "js_lt NegInf (Fin b) = True"
| "js_lt NegInf PosInf = True"
| "js_lt (Fin a) PosInf = True"
| "js_lt a b = False"

text \<open>\<^verbatim>\<open>a > b\<close>.\<close>

definition js_gt :: "jsnum \<Rightarrow> jsnum \<Rightarrow> bool" where
  "js_gt a b = js_lt b a"

text \<open>\<^verbatim>\<open>a == b\<close> on two numbers: \<^verbatim>\<open>NaN\<close> equals nothing, itself included.\<close>

definition js_eq :: "jsnum \<Rightarrow> jsnum \<Rightarrow> bool" where
  "js_eq a b = (a \<noteq> NaN \<and> a = b)"

text \<open>\<^verbatim>\<open>a != b\<close>.\<close>

definition js_ne :: "jsnum \<Rightarrow> jsnum \<Rightarrow> bool" where
  "js_ne a b = (\<not> js_eq a b)"

text \<open>\<^verbatim>\<open>a <= b\<close>.\<close>

definition js_le :: "jsnum \<Rightarrow> jsnum \<Rightarrow> bool" where
  "js_le a b = (js_lt a b \<or> js_eq a b)"

text \<open>\<^verbatim>\<open>a + b\<close>: \<^verbatim>\<open>NaN\<close> is absorbing and opposite infinities add to \<^verbatim>\<open>NaN\<close>.\<close>

fun js_add :: "jsnum \<Rightarrow> jsnum \<Rightarrow> jsnum" where
  "js_add NaN b = NaN"
| "js_add a NaN = NaN"
| "js_add (Fin a) (Fin b) = Fin (a + b)"
| "js_add PosInf NegInf = NaN"
| "js_add NegInf PosInf = NaN"
| "js_add PosInf b = PosInf"
| "js_add a PosInf = PosInf"
| "js_add NegInf b = NegInf"
| "js_add a NegInf = NegInf"

fun js_neg :: "jsnum \<Rightarrow> jsnum" where
  "js_neg NaN = NaN"
| "js_neg NegInf = PosInf"
| "js_neg PosInf = NegInf"
| "js_neg (Fin a) = Fin (- a)"

text \<open>\<^verbatim>\<open>a - b\<close>.\<close>

definition js_sub :: "jsnum \<Rightarrow> jsnum \<Rightarrow> jsnum" where
  "js_sub a b = js_add a (js_neg b)"

definition isNaN :: "jsnum \<Rightarrow> bool" where
  "isNaN v = (v = NaN)"

abbreviation zero :: jsnum where
  "zero \<equiv> Fin 0"

text \<open>A value is numeric and not negative: what the per-field loop lets through.\<close>

definition nonNegative :: "jsnum \<Rightarrow> bool" where
  "nonNegative v = (\<not> isNaN v \<and> \<not> js_lt v zero)"

section \<open>The errors object\<close>

text \<open>
  \<^verbatim>\<open>const errors: { [key: string]: string } = {}\<close> is an object whose keys keep their
  insertion order: an association list. The assignment \<^verbatim>\<open>errors[key] = msg\<close> replaces
  the value of a key already there and appends a new key otherwise, which is
  \<^const>\<open>AList.update\<close>. \<^verbatim>\<open>Object.keys(errors).length > 0\<close> is \<open>errors \<noteq> []\<close>.
\<close>

type_synonym errors = "(string \<times> string) list"

text \<open>
  \<^verbatim>\<open>if (!date) errors.date = "Please select a date"\<close>. The date is
  \<^verbatim>\<open>formData.get("date") as string\<close>: \<open>None\<close> is \<^verbatim>\<open>null\<close> (field absent), and
  both \<^verbatim>\<open>null\<close> and the empty string are falsy.
\<close>

definition falsy :: "string option \<Rightarrow> bool" where
  "falsy date = (date = None \<or> date = Some [])"

definition dateCheck :: "string option \<Rightarrow> errors" where
  "dateCheck date = (if falsy date then AList.update ''date'' ''Please select a date'' [] else [])"

text \<open>
  \<^verbatim>\<open>Object.entries(metrics).forEach(([key, value]) => { if (isNaN(value) || value < 0)
  errors[key] = "Please enter a valid number" })\<close>, the entries in declaration order.
\<close>

fun fieldChecks :: "(string \<times> jsnum) list \<Rightarrow> errors \<Rightarrow> errors" where
  "fieldChecks [] errors = errors"
| "fieldChecks ((key, v) # entries) errors =
     fieldChecks entries
       (if isNaN v \<or> js_lt v zero then AList.update key ''Please enter a valid number'' errors
        else errors)"

section \<open>Dialer end-of-day form\<close>

record dialerMetrics =
  dials :: jsnum
  connects :: jsnum
  conversations :: jsnum
  qualifiedConversations :: jsnum
  meetingsScheduled :: jsnum
  meetingsSet :: jsnum
  meetingsShowed :: jsnum
  noShows :: jsnum
  closedDeals :: jsnum
  revenueGenerated :: jsnum
  cashCollected :: jsnum

definition dialer_entries :: "dialerMetrics \<Rightarrow> (string \<times> jsnum) list" where
  "dialer_entries m =
     [(''dials'', dials m), (''connects'', connects m), (''conversations'', conversations m),
      (''qualifiedConversations'', qualifiedConversations m),
      (''meetingsScheduled'', meetingsScheduled m), (''meetingsSet'', meetingsSet m),
      (''meetingsShowed'', meetingsShowed m), (''noShows'', dialerMetrics.noShows m),
      (''closedDeals'', closedDeals m),
      (''revenueGenerated'', dialerMetrics.revenueGenerated m),
      (''cashCollected'', dialerMetrics.cashCollected m)]"

text \<open>The \<^verbatim>\<open>if / else if\<close> chain of the dialer action, in the order of the source.\<close>

definition dialer_cross :: "dialerMetrics \<Rightarrow> errors \<Rightarrow> errors" where
  "dialer_cross m errors =
     (if js_gt (connects m) (dials m) then
        AList.update ''connects'' ''Connects cannot exceed Dials'' errors
      else if js_gt (conversations m) (connects m) then
        AList.update ''conversations'' ''Conversations cannot exceed Connects'' errors
      else if js_gt (qualifiedConversations m) (conversations m) then
        AList.update ''qualifiedConversations''
          ''Qualified Conversations cannot exceed Conversations'' errors
      else if js_lt (meetingsScheduled m) zero then
        AList.update ''meetingsScheduled'' ''Meetings Scheduled cannot be negative'' errors
      else if js_gt (meetingsShowed m) (meetingsSet m) then
        AList.update ''meetingsShowed'' ''Meetings Showed cannot exceed Meetings Set'' errors
      else if js_gt (dialerMetrics.noShows m) (meetingsSet m) then
        AList.update ''noShows'' ''No Shows cannot exceed Meetings Set'' errors
      else if js_ne (meetingsSet m) (js_add (meetingsShowed m) (dialerMetrics.noShows m)) then
        AList.update ''meetingsSet'' ''Meetings Set must equal Meetings Showed + No Shows'' errors
      else if js_gt (closedDeals m) (meetingsShowed m) then
        AList.update ''closedDeals'' ''Closed Deals cannot exceed Meetings Showed'' errors
      else if js_lt (dialerMetrics.revenueGenerated m) zero \<and> js_gt (closedDeals m) zero then
        AList.update ''revenueGenerated''
          ''Revenue Generated must be greater than 0 if Closed Deals > 0'' errors
      else if js_gt (dialerMetrics.cashCollected m) zero \<and> js_le (closedDeals m) zero then
        AList.update ''closedDeals''
          ''Closed Deals must be greater than 0 if cash was collected'' errors
      else errors)"

definition dialer_errors :: "string option \<Rightarrow> dialerMetrics \<Rightarrow> errors" where
  "dialer_errors date m = dialer_cross m (fieldChecks (dialer_entries m) (dateCheck date))"

section \<open>Closer end-of-day form\<close>

record closerMetrics =
  dailyCallsBooked :: jsnum
  "shows" :: jsnum
  noShows :: jsnum
  cancelled :: jsnum
  disqualified :: jsnum
  rescheduled :: jsnum
  offersMade :: jsnum
  callsTaken :: jsnum
  closes :: jsnum
  cashCollected :: jsnum
  revenueGenerated :: jsnum

definition closer_entries :: "closerMetrics \<Rightarrow> (string \<times> jsnum) list" where
  "closer_entries m =
     [(''dailyCallsBooked'', dailyCallsBooked m), (''shows'', shows m),
      (''noShows'', closerMetrics.noShows m), (''cancelled'', cancelled m),
      (''disqualified'', disqualified m), (''rescheduled'', rescheduled m),
      (''offersMade'', offersMade m), (''callsTaken'', callsTaken m), (''closes'', closes m),
      (''cashCollected'', closerMetrics.cashCollected m),
      (''revenueGenerated'', closerMetrics.revenueGenerated m)]"

text \<open>
  \<^verbatim>\<open>shows + noShows + cancelled + disqualified + rescheduled\<close>, added left to right.
\<close>

definition closer_outcomes :: "closerMetrics \<Rightarrow> jsnum" where
  "closer_outcomes m =
     js_add (js_add (js_add (js_add (shows m) (closerMetrics.noShows m)) (cancelled m))
       (disqualified m)) (rescheduled m)"

text \<open>The \<^verbatim>\<open>if / else if\<close> chain of the closer action, in the order of the source.\<close>

definition closer_cross :: "closerMetrics \<Rightarrow> errors \<Rightarrow> errors" where
  "closer_cross m errors =
     (if js_ne (dailyCallsBooked m) (closer_outcomes m) then
        AList.update ''dailyCallsBooked''
          ''Daily Calls Booked must equal the sum of Shows, No Shows, Cancelled, Disqualified, and Rescheduled''
          errors
      else if js_gt (shows m)
          (js_sub (js_sub (js_sub (dailyCallsBooked m) (cancelled m)) (disqualified m))
            (rescheduled m)) then
        AList.update ''shows''
          ''Shows cannot exceed Daily Calls Booked minus Cancelled, Disqualified, and Rescheduled''
          errors
      else if js_gt (closerMetrics.noShows m)
          (js_sub (js_sub (js_sub (js_sub (dailyCallsBooked m) (shows m)) (cancelled m))
            (disqualified m)) (rescheduled m)) then
        AList.update ''noShows''
          ''No Shows cannot exceed Daily Calls Booked minus Shows, Cancelled, Disqualified, and Rescheduled''
          errors
      else if js_eq (dailyCallsBooked m) zero \<and> js_gt (shows m) zero then
        AList.update ''shows'' ''Shows cannot be greater than 0 if Daily Calls Booked is 0'' errors
      else if js_eq (dailyCallsBooked m) zero \<and> js_gt (closerMetrics.noShows m) zero then
        AList.update ''noShows'' ''No Shows cannot be greater than 0 if Daily Calls Booked is 0''
          errors
      else if js_gt (cancelled m) (dailyCallsBooked m) then
        AList.update ''cancelled'' ''Cancelled cannot exceed Daily Calls Booked'' errors
      else if js_gt (rescheduled m) (dailyCallsBooked m) then
        AList.update ''rescheduled'' ''Rescheduled cannot exceed Daily Calls Booked'' errors
      else if js_gt (callsTaken m) (dailyCallsBooked m) then
        AList.update ''callsTaken'' ''Calls Taken cannot exceed Daily Calls Booked'' errors
      else if js_gt (offersMade m) (callsTaken m) then
        AList.update ''offersMade'' ''Offers Made cannot exceed Calls Taken'' errors
      else if js_gt (closes m) (callsTaken m) then
        AList.update ''closes'' ''Closes cannot exceed Calls Taken'' errors
      else if js_gt (closes m) (offersMade m) then
        AList.update ''closes'' ''Closes cannot exceed Offers Made'' errors
      else if js_gt (closerMetrics.cashCollected m) zero \<and> js_le (closes m) zero then
        AList.update ''closes'' ''Closes must be greater than 0 if Cash Collected > 0'' errors
      else if js_gt (closerMetrics.revenueGenerated m) zero \<and> js_le (closes m) zero then
        AList.update ''closes'' ''Closes must be greater than 0 if Revenue Generated > 0'' errors
      else errors)"

definition closer_errors :: "string option \<Rightarrow> closerMetrics \<Rightarrow> errors" where
  "closer_errors date m = closer_cross m (fieldChecks (closer_entries m) (dateCheck date))"

section \<open>Setter end-of-day form\<close>

record setterMetrics =
  dailyOutboundConversations :: jsnum
  inboundConversations :: jsnum
  followUps :: jsnum
  callsProposed :: jsnum
  totalHighTicketSalesCallsBooked :: jsnum
  setsScheduled :: jsnum
  setsTaken :: jsnum
  closedSets :: jsnum
  revenueGenerated :: jsnum
  newCashCollected :: jsnum
  recurringCashCollected :: jsnum
  downsellRevenue :: jsnum

definition setter_entries :: "setterMetrics \<Rightarrow> (string \<times> jsnum) list" where
  "setter_entries m =
     [(''dailyOutboundConversations'', dailyOutboundConversations m),
      (''inboundConversations'', inboundConversations m), (''followUps'', followUps m),
      (''callsProposed'', callsProposed m),
      (''totalHighTicketSalesCallsBooked'', totalHighTicketSalesCallsBooked m),
      (''setsScheduled'', setsScheduled m), (''setsTaken'', setsTaken m),
      (''closedSets'', closedSets m),
      (''revenueGenerated'', setterMetrics.revenueGenerated m),
      (''newCashCollected'', setterMetrics.newCashCollected m),
      (''recurringCashCollected'', setterMetrics.recurringCashCollected m),
      (''downsellRevenue'', setterMetrics.downsellRevenue m)]"

text \<open>
  \<^verbatim>\<open>newCashCollected + recurringCashCollected + downsellRevenue\<close>, added left to right.
\<close>

definition setter_breakdown :: "setterMetrics \<Rightarrow> jsnum" where
  "setter_breakdown m =
     js_add (js_add (setterMetrics.newCashCollected m) (setterMetrics.recurringCashCollected m))
       (setterMetrics.downsellRevenue m)"

text \<open>The \<^verbatim>\<open>if / else if\<close> chain of the setter action, in the order of the source.\<close>

definition setter_cross :: "setterMetrics \<Rightarrow> errors \<Rightarrow> errors" where
  "setter_cross m errors =
     (if js_gt (callsProposed m)
          (js_add (js_add (dailyOutboundConversations m) (inboundConversations m))
            (followUps m)) then
        AList.update ''callsProposed''
          ''Cannot exceed New Outbound Convos + New Inbound Convos + Follow-Ups'' errors
      else if js_lt (callsProposed m) (totalHighTicketSalesCallsBooked m) then
        AList.update ''totalHighTicketSalesCallsBooked'' ''Cannot exceed Calls Proposed'' errors
      else if js_gt (setsTaken m) (setsScheduled m) then
        AList.update ''setsTaken'' ''Cannot exceed Sets Scheduled Today'' errors
      else if js_gt (closedSets m) (setsTaken m) then
        AList.update ''closedSets'' ''Cannot exceed Sets Taken Today'' errors
      else if js_lt (setterMetrics.revenueGenerated m) (setter_breakdown m) then
        AList.update ''revenueGenerated''
          ''Must be greater than or equal to New Cash Collected + Recurring Cash Collected + Downsell Revenue''
          errors
      else if js_gt (setterMetrics.newCashCollected m) (setterMetrics.revenueGenerated m) then
        AList.update ''newCashCollected'' ''Cannot exceed Revenue Generated'' errors
      else if js_gt (setterMetrics.recurringCashCollected m) (setterMetrics.revenueGenerated m) then
        AList.update ''recurringCashCollected'' ''Cannot exceed Revenue Generated'' errors
      else if js_gt (setterMetrics.downsellRevenue m) (setterMetrics.revenueGenerated m) then
        AList.update ''downsellRevenue'' ''Cannot exceed Revenue Generated'' errors
      else errors)"

definition setter_errors :: "string option \<Rightarrow> setterMetrics \<Rightarrow> errors" where
  "setter_errors date m = setter_cross m (fieldChecks (setter_entries m) (dateCheck date))"

text \<open>
  The entries of an errors object that come from a cross-field rule: every entry whose
  message is neither the per-field message nor the date message.
\<close>

definition crossEntries :: "errors \<Rightarrow> errors" where
  "crossEntries errors =
     filter (\<lambda>(key, msg). msg \<noteq> ''Please enter a valid number'' \<and> msg \<noteq> ''Please select a date'')
       errors"

section \<open>The chains as ordered rule lists\<close>

text \<open>
  The specification reads each chain as a list of rules in a fixed priority order, of which
  only the first that fails is reported. A rule is a triple: whether it fails on the
  submission, the key it reports under, and its message. \<open>firstFailure\<close> goes through
  the list in order and stops at the first rule that fails; \<open>reportFirst\<close> assigns that
  rule's entry to the errors object, and leaves the object as it is when no rule fails.
\<close>

fun firstFailure :: "(bool \<times> string \<times> string) list \<Rightarrow> (string \<times> string) option" where
  "firstFailure [] = None"
| "firstFailure ((failed, entry) # rules) = (if failed then Some entry else firstFailure rules)"

definition reportFirst :: "(bool \<times> string \<times> string) list \<Rightarrow> errors \<Rightarrow> errors" where
  "reportFirst rules errors =
     (case firstFailure rules of
        None \<Rightarrow> errors
      | Some (key, msg) \<Rightarrow> AList.update key msg errors)"

text \<open>The message of a rule is one that neither the per-field loop nor the date check writes.\<close>

definition crossMessage :: "bool \<times> string \<times> string \<Rightarrow> bool" where
  "crossMessage rule =
     (case rule of (failed, key, msg) \<Rightarrow>
        msg \<noteq> ''Please enter a valid number'' \<and> msg \<noteq> ''Please select a date'')"

text \<open>The rules of each role, in the order in which the handler tests them.\<close>

definition dialer_rules :: "dialerMetrics \<Rightarrow> (bool \<times> string \<times> string) list" where
  "dialer_rules m =
     [(js_gt (connects m) (dials m),
       ''connects'',
       ''Connects cannot exceed Dials''),
      (js_gt (conversations m) (connects m),
       ''conversations'',
       ''Conversations cannot exceed Connects''),
      (js_gt (qualifiedConversations m) (conversations m),
       ''qualifiedConversations'',
       ''Qualified Conversations cannot exceed Conversations''),
      (js_lt (meetingsScheduled m) zero,
       ''meetingsScheduled'',
       ''Meetings Scheduled cannot be negative''),
      (js_gt (meetingsShowed m) (meetingsSet m),
       ''meetingsShowed'',
       ''Meetings Showed cannot exceed Meetings Set''),
      (js_gt (dialerMetrics.noShows m) (meetingsSet m),
       ''noShows'',
       ''No Shows cannot exceed Meetings Set''),
      (js_ne (meetingsSet m) (js_add (meetingsShowed m) (dialerMetrics.noShows m)),
       ''meetingsSet'',
       ''Meetings Set must equal Meetings Showed + No Shows''),
      (js_gt (closedDeals m) (meetingsShowed m),
       ''closedDeals'',
       ''Closed Deals cannot exceed Meetings Showed''),
      (js_lt (dialerMetrics.revenueGenerated m) zero \<and> js_gt (closedDeals m) zero,
       ''revenueGenerated'',
       ''Revenue Generated must be greater than 0 if Closed Deals > 0''),
      (js_gt (dialerMetrics.cashCollected m) zero \<and> js_le (closedDeals m) zero,
       ''closedDeals'',
       ''Closed Deals must be greater than 0 if cash was collected'')]"

definition closer_rules :: "closerMetrics \<Rightarrow> (bool \<times> string \<times> string) list" where
  "closer_rules m =
     [(js_ne (dailyCallsBooked m) (closer_outcomes m),
       ''dailyCallsBooked'',
       ''Daily Calls Booked must equal the sum of Shows, No Shows, Cancelled, Disqualified, and Rescheduled''),
      (js_gt (shows m) (js_sub (js_sub (js_sub (dailyCallsBooked m) (cancelled m)) (disqualified m)) (rescheduled m)),
       ''shows'',
       ''Shows cannot exceed Daily Calls Booked minus Cancelled, Disqualified, and Rescheduled''),
      (js_gt (closerMetrics.noShows m) (js_sub (js_sub (js_sub (js_sub (dailyCallsBooked m) (shows m)) (cancelled m)) (disqualified m)) (rescheduled m)),
       ''noShows'',
       ''No Shows cannot exceed Daily Calls Booked minus Shows, Cancelled, Disqualified, and Rescheduled''),
      (js_eq (dailyCallsBooked m) zero \<and> js_gt (shows m) zero,
       ''shows'',
       ''Shows cannot be greater than 0 if Daily Calls Booked is 0''),
      (js_eq (dailyCallsBooked m) zero \<and> js_gt (closerMetrics.noShows m) zero,
       ''noShows'',
       ''No Shows cannot be greater than 0 if Daily Calls Booked is 0''),
      (js_gt (cancelled m) (dailyCallsBooked m),
       ''cancelled'',
       ''Cancelled cannot exceed Daily Calls Booked''),
      (js_gt (rescheduled m) (dailyCallsBooked m),
       ''rescheduled'',
       ''Rescheduled cannot exceed Daily Calls Booked''),
      (js_gt (callsTaken m) (dailyCallsBooked m),
       ''callsTaken'',
       ''Calls Taken cannot exceed Daily Calls Booked''),
      (js_gt (offersMade m) (callsTaken m),
       ''offersMade'',
       ''Offers Made cannot exceed Calls Taken''),
      (js_gt (closes m) (callsTaken m),
       ''closes'',
       ''Closes cannot exceed Calls Taken''),
      (js_gt (closes m) (offersMade m),
       ''closes'',
       ''Closes cannot exceed Offers Made''),
      (js_gt (closerMetrics.cashCollected m) zero \<and> js_le (closes m) zero,
       ''closes'',
       ''Closes must be greater than 0 if Cash Collected > 0''),
      (js_gt (closerMetrics.revenueGenerated m) zero \<and> js_le (closes m) zero,
       ''closes'',
       ''Closes must be greater than 0 if Revenue Generated > 0'')]"

definition setter_rules :: "setterMetrics \<Rightarrow> (bool \<times> string \<times> string) list" where
  "setter_rules m =
     [(js_gt (callsProposed m) (js_add (js_add (dailyOutboundConversations m) (inboundConversations m)) (followUps m)),
       ''callsProposed'',
       ''Cannot exceed New Outbound Convos + New Inbound Convos + Follow-Ups''),
      (js_lt (callsProposed m) (totalHighTicketSalesCallsBooked m),
       ''totalHighTicketSalesCallsBooked'',
       ''Cannot exceed Calls Proposed''),
      (js_gt (setsTaken m) (setsScheduled m),
       ''setsTaken'',
       ''Cannot exceed Sets Scheduled Today''),
      (js_gt (closedSets m) (setsTaken m),
       ''closedSets'',
       ''Cannot exceed Sets Taken Today''),
      (js_lt (setterMetrics.revenueGenerated m) (setter_breakdown m),
       ''revenueGenerated'',
       ''Must be greater than or equal to New Cash Collected + Recurring Cash Collected + Downsell Revenue''),
      (js_gt (setterMetrics.newCashCollected m) (setterMetrics.revenueGenerated m),
       ''newCashCollected'',
       ''Cannot exceed Revenue Generated''),
      (js_gt (setterMetrics.recurringCashCollected m) (setterMetrics.revenueGenerated m),
       ''recurringCashCollected'',
       ''Cannot exceed Revenue Generated''),
      (js_gt (setterMetrics.downsellRevenue m) (setterMetrics.revenueGenerated m),
       ''downsellRevenue'',
       ''Cannot exceed Revenue Generated'')]"

section \<open>The write endpoint\<close>

text \<open>
  The metrics collection of one role is a map from the unique key \<^verbatim>\<open>(personId, date)\<close>
  to the stored row (\<open>rowPerson\<close> is the \<^verbatim>\<open>dialerId\<close>, \<^verbatim>\<open>closerId\<close> or
  \<^verbatim>\<open>setterId\<close> column, \<open>rowDate\<close> the \<^verbatim>\<open>date\<close> column, an instant in milliseconds,
  \<open>rowMetrics\<close> the metric columns). The columns the database fills by itself (\<^verbatim>\<open>id\<close>, \<^verbatim>\<open>createdAt\<close>, \<^verbatim>\<open>updatedAt\<close>) are left out.
\<close>

record 'm row =
  rowPerson :: string
  rowDate :: int
  rowMetrics :: 'm

type_synonym 'm collection = "string \<times> int \<rightharpoonup> 'm row"

text \<open>
  A database call either resolves or rejects. \<^verbatim>\<open>new Date(date)\<close> is a parameter
  \<open>newDate\<close> of the actions, \<open>None\<close> being an Invalid Date, which the database client
  refuses as an argument: the call rejects and the action throws. For a \<open>newDate\<close> that
  always gives an instant, the actions below are the handlers' text as it stands.
\<close>

datatype 'a promise = Rejected | Resolved 'a

definition findUnique :: "'m collection \<Rightarrow> string \<Rightarrow> int option \<Rightarrow> 'm row option promise" where
  "findUnique db pid d = (case d of None \<Rightarrow> Rejected | Some t \<Rightarrow> Resolved (db (pid, t)))"

text \<open>
  \<^verbatim>\<open>upsert({ where, update: metrics, create: { ...metrics, personId, date } })\<close>: a row
  with the key has its metric columns set to the submitted ones, otherwise a row is created.
\<close>

definition upsert :: "'m collection \<Rightarrow> string \<Rightarrow> int option \<Rightarrow> 'm \<Rightarrow> 'm collection promise" where
  "upsert db pid d m =
     (case d of
        None \<Rightarrow> Rejected
      | Some t \<Rightarrow>
          Resolved (db((pid, t) \<mapsto>
            (case db (pid, t) of
               None \<Rightarrow> \<lparr>rowPerson = pid, rowDate = t, rowMetrics = m\<rparr>
             | Some r \<Rightarrow> r\<lparr>rowMetrics := m\<rparr>))))"

text \<open>
  What an action answers: \<^verbatim>\<open>{ success: true }\<close>, \<^verbatim>\<open>{ errors }\<close> with status 400,
  \<^verbatim>\<open>{ existingDate: date }\<close> with status 409, or an exception out of the handler.
\<close>

datatype response = Success | ErrorsResponse errors | Conflict "string option" | Thrown

text \<open>
  The part of the three actions after the validation chain, which is the same text in each
  but for the collection and the person: the look-up of an existing row unless
  \<^verbatim>\<open>forceOverwrite\<close>, then the return of the errors, then the upsert.
\<close>

definition respond ::
  "(string option \<Rightarrow> int option) \<Rightarrow> 'm collection \<Rightarrow> string \<Rightarrow> string option \<Rightarrow> bool \<Rightarrow>
   'm \<Rightarrow> errors \<Rightarrow> response \<times> 'm collection" where
  "respond newDate db pid date forceOverwrite m errors =
     (case (if \<not> forceOverwrite then findUnique db pid (newDate date) else Resolved None) of
        Rejected \<Rightarrow> (Thrown, db)
      | Resolved (Some existingMetric) \<Rightarrow> (Conflict date, db)
      | Resolved None \<Rightarrow>
          if errors \<noteq> [] then (ErrorsResponse errors, db)
          else (case upsert db pid (newDate date) m of
                  Rejected \<Rightarrow> (Thrown, db)
                | Resolved db' \<Rightarrow> (Success, db')))"

definition dialerId :: string where
  "dialerId = ''67f6010aa713d700b8bee6ec''"

definition closerId :: string where
  "closerId = ''67fc6f96c7394b8e022c058d''"

definition setterId :: string where
  "setterId = ''67fdc943d17d6b5629513257''"

definition dialer_action ::
  "(string option \<Rightarrow> int option) \<Rightarrow> dialerMetrics collection \<Rightarrow> string option \<Rightarrow> bool \<Rightarrow>
   dialerMetrics \<Rightarrow> response \<times> dialerMetrics collection" where
  "dialer_action newDate db date forceOverwrite m =
     respond newDate db dialerId date forceOverwrite m (dialer_errors date m)"

definition closer_action ::
  "(string option \<Rightarrow> int option) \<Rightarrow> closerMetrics collection \<Rightarrow> string option \<Rightarrow> bool \<Rightarrow>
   closerMetrics \<Rightarrow> response \<times> closerMetrics collection" where
  "closer_action newDate db date forceOverwrite m =
     respond newDate db closerId date forceOverwrite m (closer_errors date m)"

definition setter_action ::
  "(string option \<Rightarrow> int option) \<Rightarrow> setterMetrics collection \<Rightarrow> string option \<Rightarrow> bool \<Rightarrow>
   setterMetrics \<Rightarrow> response \<times> setterMetrics collection" where
  "setter_action newDate db date forceOverwrite m =
     respond newDate db setterId date forceOverwrite m (setter_errors date m)"

section \<open>The range resolver of the analytics loaders\<close>

text \<open>
  A \<^verbatim>\<open>Date\<close> is its number of milliseconds, read in the local frame of the process,
  taken to be a fixed offset from UTC (no daylight-saving change inside a window), so that a
  local day is 86400000 ms and \<^verbatim>\<open>startOfDay\<close>, \<^verbatim>\<open>endOfDay\<close>, \<^verbatim>\<open>subDays\<close> and
  \<^verbatim>\<open>differenceInDays\<close> of date-fns are arithmetic on that number.
\<close>

definition dayMs :: int where
  "dayMs = 86400000"

definition startOfDay :: "int \<Rightarrow> int" where
  "startOfDay t = t - t mod dayMs"

definition endOfDay :: "int \<Rightarrow> int" where
  "endOfDay t = startOfDay t + (dayMs - 1)"

definition subDays :: "int \<Rightarrow> int \<Rightarrow> int" where
  "subDays t n = t - n * dayMs"

text \<open>The number of full days from \<open>r\<close> to \<open>l\<close>, truncated towards zero.\<close>

definition differenceInDays :: "int \<Rightarrow> int \<Rightarrow> int" where
  "differenceInDays l r = (if r \<le> l then (l - r) div dayMs else - ((r - l) div dayMs))"

record range =
  start :: int
  "end" :: int
  previousStart :: int
  previousEnd :: int
  daysInRange :: int
  daysInPreviousRange :: int

text \<open>A query parameter is truthy when it is present and not empty.\<close>

definition truthy :: "string option \<Rightarrow> bool" where
  "truthy p = (p \<noteq> None \<and> p \<noteq> Some [])"

text \<open>
  The loader up to its first query. \<open>parseISO\<close> (\<open>None\<close> for an Invalid Date) and
  \<open>toZonedTime\<close> (already applied to the caller's time zone) are parameters, and
  \<open>now\<close> is \<^verbatim>\<open>toZonedTime(new Date(), userTimeZone)\<close>. The tests follow the source:
  \<^verbatim>\<open>range === "custom" && startDate && endDate\<close>, then \<^verbatim>\<open>"24h"\<close>, then \<^verbatim>\<open>"7d"\<close>,
  then everything else.
\<close>

definition resolveRange ::
  "(string \<Rightarrow> int option) \<Rightarrow> (int \<Rightarrow> int) \<Rightarrow> int \<Rightarrow> string option \<Rightarrow> string option \<Rightarrow>
   string option \<Rightarrow> range" where
  "resolveRange parseISO toZonedTime now rangeParam startDate endDate =
     (let range = (case rangeParam of None \<Rightarrow> ''30d'' | Some r \<Rightarrow> if r = [] then ''30d'' else r);
          end0 = endOfDay now
      in
        if range = ''custom'' \<and> truthy startDate \<and> truthy endDate then
          (case (Option.bind startDate parseISO, Option.bind endDate parseISO) of
             (Some parsedStart, Some parsedEnd) \<Rightarrow>
               (let start1 = startOfDay (toZonedTime parsedStart);
                    end1 = endOfDay (toZonedTime parsedEnd);
                    days = differenceInDays end1 start1 + 1
                in \<lparr>start = start1, end = end1,
                     previousStart = startOfDay (subDays start1 days),
                     previousEnd = endOfDay (subDays end1 days),
                     daysInRange = days, daysInPreviousRange = days\<rparr>)
           | _ \<Rightarrow>
               (let start1 = startOfDay (subDays end0 30);
                    end1 = endOfDay end0
                in \<lparr>start = start1, end = end1,
                     previousStart = startOfDay (subDays start1 30),
                     previousEnd = endOfDay (subDays end1 30),
                     daysInRange = 30, daysInPreviousRange = 30\<rparr>))
        else if range = ''24h'' then
          (let start1 = startOfDay now;
               end1 = endOfDay now
           in \<lparr>start = start1, end = end1,
                previousStart = startOfDay (subDays start1 1),
                previousEnd = endOfDay (subDays end1 1),
                daysInRange = 1, daysInPreviousRange = 1\<rparr>)
        else if range = ''7d'' then
          (let start1 = startOfDay (subDays end0 6)
           in \<lparr>start = start1, end = end0,
                previousStart = startOfDay (subDays start1 7),
                previousEnd = endOfDay (subDays end0 7),
                daysInRange = 7, daysInPreviousRange = 7\<rparr>)
        else
          (let start1 = startOfDay (subDays end0 29)
           in \<lparr>start = start1, end = end0,
                previousStart = startOfDay (subDays start1 30),
                previousEnd = endOfDay (subDays end0 30),
                daysInRange = 30, daysInPreviousRange = 30\<rparr>))"

section \<open>Percentage delta\<close>



section \<open>Revenue over time\<close>

text \<open>
  On the client a metric row has been through JSON: a revenue column is a finite number,
  or not a number at all (\<^verbatim>\<open>null\<close>), which is \<open>None\<close>. \<open>metricDate\<close> is the instant
  that the ISO string \<^verbatim>\<open>metric.date\<close> denotes. Only the columns that the chart reads
  are kept.
\<close>

record settersMetric =
  metricDate :: int
  revenueGenerated :: "rat option"
  newCashCollected :: "rat option"
  recurringCashCollected :: "rat option"
  downsellRevenue :: "rat option"

text \<open>
  \<^verbatim>\<open>typeof value === "number" && !isNaN(value) ? value : 0\<close>
\<close>

definition safeNumber :: "rat option \<Rightarrow> rat" where
  "safeNumber v = (case v of Some x \<Rightarrow> x | None \<Rightarrow> 0)"

record bucket =
  revenueGenerated :: rat
  newCashCollected :: rat
  recurringCashCollected :: rat
  downsellRevenue :: rat

text \<open>
  \<^verbatim>\<open>format(parseISO(metric.date), "yyyy-MM-dd")\<close>: the calendar day of the instant in the
  local zone, \<open>tz\<close> being the offset of that zone in milliseconds. The key string
  \<^verbatim>\<open>yyyy-MM-dd\<close> is modelled by the number of the day, and
  \<^verbatim>\<open>new Date(key).getTime()\<close>, the midnight of that day in UTC, by \<open>keyTime\<close>.
\<close>

definition dayKey :: "int \<Rightarrow> int \<Rightarrow> int" where
  "dayKey tz t = (t + tz) div dayMs"

definition keyTime :: "int \<Rightarrow> int" where
  "keyTime key = key * dayMs"

text \<open>
  The bucket that \<^verbatim>\<open>if (!acc[date])\<close> creates, and the four \<^verbatim>\<open>+=\<close> of a row
  into its bucket, each through \<^verbatim>\<open>safeNumber\<close>.
\<close>

definition emptyBucket :: bucket where
  "emptyBucket =
     \<lparr>revenueGenerated = 0, newCashCollected = 0, recurringCashCollected = 0,
      downsellRevenue = 0\<rparr>"

definition addToBucket :: "settersMetric \<Rightarrow> bucket \<Rightarrow> bucket" where
  "addToBucket metric b =
     \<lparr>revenueGenerated =
        bucket.revenueGenerated b + safeNumber (settersMetric.revenueGenerated metric),
      newCashCollected =
        bucket.newCashCollected b + safeNumber (settersMetric.newCashCollected metric),
      recurringCashCollected =
        bucket.recurringCashCollected b
          + safeNumber (settersMetric.recurringCashCollected metric),
      downsellRevenue =
        bucket.downsellRevenue b + safeNumber (settersMetric.downsellRevenue metric)\<rparr>"

text \<open>
  One step of the \<^verbatim>\<open>reduce\<close>: the bucket of the day is created when the accumulator
  has none, then the row is added to it. The accumulator is an object, its keys in
  insertion order; the bucket is there when it is updated, so that \<^const>\<open>AList.map_entry\<close>
  always finds it.
\<close>

definition addMetric :: "int \<Rightarrow> (int \<times> bucket) list \<Rightarrow> settersMetric \<Rightarrow> (int \<times> bucket) list" where
  "addMetric tz acc metric =
     (let key = dayKey tz (metricDate metric);
          acc1 = (if map_of acc key = None then AList.update key emptyBucket acc else acc)
      in AList.map_entry key (addToBucket metric) acc1)"

definition dailyRevenueData :: "int \<Rightarrow> settersMetric list \<Rightarrow> (int \<times> bucket) list" where
  "dailyRevenueData tz settersMetrics = foldl (addMetric tz) [] settersMetrics"

text \<open>
  \<^verbatim>\<open>Object.keys(dailyRevenueData).sort((a, b) => new Date(a).getTime() - new Date(b).getTime())\<close>
\<close>

definition sortedDates :: "int \<Rightarrow> settersMetric list \<Rightarrow> int list" where
  "sortedDates tz settersMetrics = sort_key keyTime (map fst (dailyRevenueData tz settersMetrics))"

text \<open>
  The chart's series: for each sorted key the bucket \<^verbatim>\<open>dailyRevenueData[date]\<close>, read
  through the look-up (\<open>None\<close> would be the \<^verbatim>\<open>TypeError\<close> of reading a column of
  \<^verbatim>\<open>undefined\<close>). The four datasets are the four columns of these buckets.
\<close>

definition revenueOverTimeData :: "int \<Rightarrow> settersMetric list \<Rightarrow> (int \<times> bucket option) list" where
  "revenueOverTimeData tz settersMetrics =
     map (\<lambda>key. (key, map_of (dailyRevenueData tz settersMetrics) key))
       (sortedDates tz settersMetrics)"

text \<open>The sums that a day's bucket should hold: the rows of the day, column by column.\<close>

definition dayTotal :: "int \<Rightarrow> settersMetric list \<Rightarrow> int \<Rightarrow> bucket" where
  "dayTotal tz settersMetrics key =
     (let rows = filter (\<lambda>metric. dayKey tz (metricDate metric) = key) settersMetrics
      in \<lparr>revenueGenerated = sum_list (map (safeNumber \<circ> settersMetric.revenueGenerated) rows),
          newCashCollected = sum_list (map (safeNumber \<circ> settersMetric.newCashCollected) rows),
          recurringCashCollected =
            sum_list (map (safeNumber \<circ> settersMetric.recurringCashCollected) rows),
          downsellRevenue = sum_list (map (safeNumber \<circ> settersMetric.downsellRevenue) rows)\<rparr>)"

section \<open>Properties of the validation chains\<close>

subsection \<open>Assignments to the errors object\<close>

lemma set_update_subset: "set (AList.update k v al) \<subseteq> insert (k, v) (set al)"
  by (induction al) auto

lemma crossEntries_update_base:
  "crossEntries al = [] \<Longrightarrow>
   msg = ''Please enter a valid number'' \<or> msg = ''Please select a date'' \<Longrightarrow>
   crossEntries (AList.update k msg al) = []"
  unfolding crossEntries_def filter_empty_conv
  using set_update_subset [of k msg al] by auto

lemma crossEntries_fieldChecks:
  "crossEntries errors = [] \<Longrightarrow> crossEntries (fieldChecks entries errors) = []"
  by (induction entries errors rule: fieldChecks.induct) (simp_all add: crossEntries_update_base)

lemma crossEntries_dateCheck: "crossEntries (dateCheck date) = []"
  by (simp add: dateCheck_def crossEntries_def)

lemma crossEntries_base: "crossEntries (fieldChecks entries (dateCheck date)) = []"
  by (rule crossEntries_fieldChecks [OF crossEntries_dateCheck])

subsection \<open>A chain reports its first failing rule\<close>

lemma filter_update_single:
  "filter P al = [] \<Longrightarrow> P (k, v) \<Longrightarrow> filter P (AList.update k v al) = [(k, v)]"
  by (induction al) (auto split: if_splits)

lemma reportFirst_Nil: "reportFirst [] errors = errors"
  by (simp add: reportFirst_def)

lemma reportFirst_Cons:
  "reportFirst ((failed, key, msg) # rules) errors =
     (if failed then AList.update key msg errors else reportFirst rules errors)"
  by (simp add: reportFirst_def)

lemma dialer_cross_rules: "dialer_cross m errors = reportFirst (dialer_rules m) errors"
  unfolding dialer_cross_def dialer_rules_def
  by (simp only: reportFirst_Cons reportFirst_Nil)

lemma closer_cross_rules: "closer_cross m errors = reportFirst (closer_rules m) errors"
  unfolding closer_cross_def closer_rules_def
  by (simp only: reportFirst_Cons reportFirst_Nil)

lemma setter_cross_rules: "setter_cross m errors = reportFirst (setter_rules m) errors"
  unfolding setter_cross_def setter_rules_def setter_breakdown_def
  by (simp only: reportFirst_Cons reportFirst_Nil)

lemma firstFailure_mem:
  "firstFailure rules = Some entry \<Longrightarrow> \<exists>failed. (failed, entry) \<in> set rules"
proof (induction rules)
  case Nil
  then show ?case by simp
next
  case (Cons r rules)
  obtain failed e where r: "r = (failed, e)" by (cases r)
  show ?case
  proof (cases failed)
    case True
    with Cons.prems r have "e = entry" by simp
    with r show ?thesis by auto
  next
    case False
    with Cons.prems r have "firstFailure rules = Some entry" by simp
    from Cons.IH [OF this] show ?thesis by auto
  qed
qed

lemma firstFailure_None_iff:
  "firstFailure rules = None \<longleftrightarrow> list_all (\<lambda>rule. \<not> fst rule) rules"
proof (induction rules)
  case Nil
  then show ?case by simp
next
  case (Cons r rules)
  obtain failed e where r: "r = (failed, e)" by (cases r)
  with Cons show ?case by simp
qed

lemma firstFailure_first:
  "list_all (\<lambda>rule. \<not> fst rule) earlier \<Longrightarrow>
   firstFailure (earlier @ (True, entry) # later) = Some entry"
proof (induction earlier)
  case Nil
  then show ?case by simp
next
  case (Cons r earlier)
  obtain failed e where r: "r = (failed, e)" by (cases r)
  with Cons show ?case by simp
qed

lemma crossEntries_reportFirst:
  assumes base: "crossEntries base = []"
    and msgs: "list_all crossMessage rules"
  shows "crossEntries (reportFirst rules base) =
     (case firstFailure rules of None \<Rightarrow> [] | Some entry \<Rightarrow> [entry])"
proof (cases "firstFailure rules")
  case None
  then show ?thesis by (simp add: reportFirst_def base)
next
  case (Some entry)
  obtain key msg where e: "entry = (key, msg)" by (cases entry)
  from firstFailure_mem [OF Some] e obtain failed where "(failed, key, msg) \<in> set rules"
    by blast
  with msgs have "crossMessage (failed, key, msg)"
    by (simp add: list_all_iff)
  then have m: "msg \<noteq> ''Please enter a valid number'' \<and> msg \<noteq> ''Please select a date''"
    by (simp add: crossMessage_def)
  have "crossEntries (AList.update key msg base) = [(key, msg)]"
    unfolding crossEntries_def
    by (rule filter_update_single) (use base m in \<open>simp_all add: crossEntries_def\<close>)
  with Some e show ?thesis by (simp add: reportFirst_def)
qed

lemma dialer_rules_msgs: "list_all crossMessage (dialer_rules m)"
  by (simp add: dialer_rules_def crossMessage_def)

lemma closer_rules_msgs: "list_all crossMessage (closer_rules m)"
  by (simp add: closer_rules_def crossMessage_def)

lemma setter_rules_msgs: "list_all crossMessage (setter_rules m)"
  by (simp add: setter_rules_def crossMessage_def)

text \<open>
  Claim C3. In each of the three roles, whatever the date and the metrics, the handler
  evaluates its cross-field rules in their fixed order and stops at the first one that
  fails: the errors object is the object of the per-field checks with the entry of that
  first failing rule assigned to it, or that object unchanged when no rule fails. So the
  entries that come from a cross-field rule are at most one, the entry of the first
  failing rule, however many rules the submission violates; the entries of the per-field
  loop and of the date check are apart from it, and there can be several of them.
\<close>

theorem cross_field_first_failure:
  "dialer_errors date dm =
      reportFirst (dialer_rules dm) (fieldChecks (dialer_entries dm) (dateCheck date))
   \<and> crossEntries (dialer_errors date dm) =
      (case firstFailure (dialer_rules dm) of None \<Rightarrow> [] | Some entry \<Rightarrow> [entry])
   \<and> length (crossEntries (dialer_errors date dm)) \<le> 1
   \<and> closer_errors date cm =
      reportFirst (closer_rules cm) (fieldChecks (closer_entries cm) (dateCheck date))
   \<and> crossEntries (closer_errors date cm) =
      (case firstFailure (closer_rules cm) of None \<Rightarrow> [] | Some entry \<Rightarrow> [entry])
   \<and> length (crossEntries (closer_errors date cm)) \<le> 1
   \<and> setter_errors date sm =
      reportFirst (setter_rules sm) (fieldChecks (setter_entries sm) (dateCheck date))
   \<and> crossEntries (setter_errors date sm) =
      (case firstFailure (setter_rules sm) of None \<Rightarrow> [] | Some entry \<Rightarrow> [entry])
   \<and> length (crossEntries (setter_errors date sm)) \<le> 1"
proof -
  have d: "dialer_errors date dm =
      reportFirst (dialer_rules dm) (fieldChecks (dialer_entries dm) (dateCheck date))"
    by (simp only: dialer_errors_def dialer_cross_rules)
  have c: "closer_errors date cm =
      reportFirst (closer_rules cm) (fieldChecks (closer_entries cm) (dateCheck date))"
    by (simp only: closer_errors_def closer_cross_rules)
  have s: "setter_errors date sm =
      reportFirst (setter_rules sm) (fieldChecks (setter_entries sm) (dateCheck date))"
    by (simp only: setter_errors_def setter_cross_rules)
  have d1: "crossEntries (dialer_errors date dm) =
      (case firstFailure (dialer_rules dm) of None \<Rightarrow> [] | Some entry \<Rightarrow> [entry])"
    unfolding d by (rule crossEntries_reportFirst [OF crossEntries_base dialer_rules_msgs])
  have c1: "crossEntries (closer_errors date cm) =
      (case firstFailure (closer_rules cm) of None \<Rightarrow> [] | Some entry \<Rightarrow> [entry])"
    unfolding c by (rule crossEntries_reportFirst [OF crossEntries_base closer_rules_msgs])
  have s1: "crossEntries (setter_errors date sm) =
      (case firstFailure (setter_rules sm) of None \<Rightarrow> [] | Some entry \<Rightarrow> [entry])"
    unfolding s by (rule crossEntries_reportFirst [OF crossEntries_base setter_rules_msgs])
  have d2: "length (crossEntries (dialer_errors date dm)) \<le> 1"
    unfolding d1 by (simp split: option.split)
  have c2: "length (crossEntries (closer_errors date cm)) \<le> 1"
    unfolding c1 by (simp split: option.split)
  have s2: "length (crossEntries (setter_errors date sm)) \<le> 1"
    unfolding s1 by (simp split: option.split)
  from d d1 d2 c c1 c2 s s1 s2 show ?thesis by (intro conjI)
qed

theorem cross_field_first_failure_witness:
  "length (filter fst (dialer_rules
      \<lparr>dials = Fin 10, connects = Fin 5, conversations = Fin 8, qualifiedConversations = Fin 2,
       meetingsScheduled = Fin 0, meetingsSet = Fin 1, meetingsShowed = Fin 3,
       dialerMetrics.noShows = Fin 0, closedDeals = Fin 4,
       dialerMetrics.revenueGenerated = Fin 0, dialerMetrics.cashCollected = Fin 0\<rparr>)) = 4
   \<and> dialer_errors (Some ''2024-01-01'')
      \<lparr>dials = Fin 10, connects = Fin 5, conversations = Fin 8, qualifiedConversations = Fin 2,
       meetingsScheduled = Fin 0, meetingsSet = Fin 1, meetingsShowed = Fin 3,
       dialerMetrics.noShows = Fin 0, closedDeals = Fin 4,
       dialerMetrics.revenueGenerated = Fin 0, dialerMetrics.cashCollected = Fin 0\<rparr>
     = [(''conversations'', ''Conversations cannot exceed Connects'')]
   \<and> crossEntries (closer_errors None
      \<lparr>dailyCallsBooked = Fin 5, shows = Fin 4, closerMetrics.noShows = Fin 1,
       cancelled = Fin 0, disqualified = Fin 0, rescheduled = Fin 0, offersMade = Fin 7,
       callsTaken = Fin 6, closes = Fin 9, closerMetrics.cashCollected = NaN,
       closerMetrics.revenueGenerated = Fin 3\<rparr>)
     = [(''callsTaken'', ''Calls Taken cannot exceed Daily Calls Booked'')]
   \<and> setter_errors (Some ''2024-01-01'')
      \<lparr>dailyOutboundConversations = Fin 5, inboundConversations = Fin 2, followUps = Fin 1,
       callsProposed = Fin 3, totalHighTicketSalesCallsBooked = Fin 2, setsScheduled = Fin 2,
       setsTaken = Fin 1, closedSets = Fin 1, setterMetrics.revenueGenerated = Fin 10,
       setterMetrics.newCashCollected = Fin 4, setterMetrics.recurringCashCollected = Fin 3,
       setterMetrics.downsellRevenue = Fin 3\<rparr> = []"
proof -
  have d: "firstFailure (dialer_rules
      \<lparr>dials = Fin 10, connects = Fin 5, conversations = Fin 8, qualifiedConversations = Fin 2,
       meetingsScheduled = Fin 0, meetingsSet = Fin 1, meetingsShowed = Fin 3,
       dialerMetrics.noShows = Fin 0, closedDeals = Fin 4,
       dialerMetrics.revenueGenerated = Fin 0, dialerMetrics.cashCollected = Fin 0\<rparr>)
     = Some (''conversations'', ''Conversations cannot exceed Connects'')"
    by (simp add: dialer_rules_def js_gt_def)
  have c: "firstFailure (closer_rules
      \<lparr>dailyCallsBooked = Fin 5, shows = Fin 4, closerMetrics.noShows = Fin 1,
       cancelled = Fin 0, disqualified = Fin 0, rescheduled = Fin 0, offersMade = Fin 7,
       callsTaken = Fin 6, closes = Fin 9, closerMetrics.cashCollected = NaN,
       closerMetrics.revenueGenerated = Fin 3\<rparr>)
     = Some (''callsTaken'', ''Calls Taken cannot exceed Daily Calls Booked'')"
    by (simp add: closer_rules_def closer_outcomes_def js_gt_def js_ne_def js_eq_def js_sub_def)
  have s: "firstFailure (setter_rules
      \<lparr>dailyOutboundConversations = Fin 5, inboundConversations = Fin 2, followUps = Fin 1,
       callsProposed = Fin 3, totalHighTicketSalesCallsBooked = Fin 2, setsScheduled = Fin 2,
       setsTaken = Fin 1, closedSets = Fin 1, setterMetrics.revenueGenerated = Fin 10,
       setterMetrics.newCashCollected = Fin 4, setterMetrics.recurringCashCollected = Fin 3,
       setterMetrics.downsellRevenue = Fin 3\<rparr>) = None"
    by (simp add: setter_rules_def setter_breakdown_def js_gt_def)
  have n: "length (filter fst (dialer_rules
      \<lparr>dials = Fin 10, connects = Fin 5, conversations = Fin 8, qualifiedConversations = Fin 2,
       meetingsScheduled = Fin 0, meetingsSet = Fin 1, meetingsShowed = Fin 3,
       dialerMetrics.noShows = Fin 0, closedDeals = Fin 4,
       dialerMetrics.revenueGenerated = Fin 0, dialerMetrics.cashCollected = Fin 0\<rparr>)) = 4"
    by (simp add: dialer_rules_def js_gt_def js_ne_def js_eq_def js_le_def)
  have bd: "fieldChecks (dialer_entries
      \<lparr>dials = Fin 10, connects = Fin 5, conversations = Fin 8, qualifiedConversations = Fin 2,
       meetingsScheduled = Fin 0, meetingsSet = Fin 1, meetingsShowed = Fin 3,
       dialerMetrics.noShows = Fin 0, closedDeals = Fin 4,
       dialerMetrics.revenueGenerated = Fin 0, dialerMetrics.cashCollected = Fin 0\<rparr>) (dateCheck (Some ''2024-01-01'')) = []"
    by (simp add: dialer_entries_def dateCheck_def falsy_def isNaN_def)
  have bs: "fieldChecks (setter_entries
      \<lparr>dailyOutboundConversations = Fin 5, inboundConversations = Fin 2, followUps = Fin 1,
       callsProposed = Fin 3, totalHighTicketSalesCallsBooked = Fin 2, setsScheduled = Fin 2,
       setsTaken = Fin 1, closedSets = Fin 1, setterMetrics.revenueGenerated = Fin 10,
       setterMetrics.newCashCollected = Fin 4, setterMetrics.recurringCashCollected = Fin 3,
       setterMetrics.downsellRevenue = Fin 3\<rparr>) (dateCheck (Some ''2024-01-01'')) = []"
    by (simp add: setter_entries_def dateCheck_def falsy_def isNaN_def)
  note t1 = cross_field_first_failure [of "Some ''2024-01-01''"
      "\<lparr>dials = Fin 10, connects = Fin 5, conversations = Fin 8, qualifiedConversations = Fin 2,
       meetingsScheduled = Fin 0, meetingsSet = Fin 1, meetingsShowed = Fin 3,
       dialerMetrics.noShows = Fin 0, closedDeals = Fin 4,
       dialerMetrics.revenueGenerated = Fin 0, dialerMetrics.cashCollected = Fin 0\<rparr>"
      "\<lparr>dailyCallsBooked = Fin 5, shows = Fin 4, closerMetrics.noShows = Fin 1,
       cancelled = Fin 0, disqualified = Fin 0, rescheduled = Fin 0, offersMade = Fin 7,
       callsTaken = Fin 6, closes = Fin 9, closerMetrics.cashCollected = NaN,
       closerMetrics.revenueGenerated = Fin 3\<rparr>"
      "\<lparr>dailyOutboundConversations = Fin 5, inboundConversations = Fin 2, followUps = Fin 1,
       callsProposed = Fin 3, totalHighTicketSalesCallsBooked = Fin 2, setsScheduled = Fin 2,
       setsTaken = Fin 1, closedSets = Fin 1, setterMetrics.revenueGenerated = Fin 10,
       setterMetrics.newCashCollected = Fin 4, setterMetrics.recurringCashCollected = Fin 3,
       setterMetrics.downsellRevenue = Fin 3\<rparr>"]
  note t2 = cross_field_first_failure [of None
      "\<lparr>dials = Fin 10, connects = Fin 5, conversations = Fin 8, qualifiedConversations = Fin 2,
       meetingsScheduled = Fin 0, meetingsSet = Fin 1, meetingsShowed = Fin 3,
       dialerMetrics.noShows = Fin 0, closedDeals = Fin 4,
       dialerMetrics.revenueGenerated = Fin 0, dialerMetrics.cashCollected = Fin 0\<rparr>"
      "\<lparr>dailyCallsBooked = Fin 5, shows = Fin 4, closerMetrics.noShows = Fin 1,
       cancelled = Fin 0, disqualified = Fin 0, rescheduled = Fin 0, offersMade = Fin 7,
       callsTaken = Fin 6, closes = Fin 9, closerMetrics.cashCollected = NaN,
       closerMetrics.revenueGenerated = Fin 3\<rparr>"
      "\<lparr>dailyOutboundConversations = Fin 5, inboundConversations = Fin 2, followUps = Fin 1,
       callsProposed = Fin 3, totalHighTicketSalesCallsBooked = Fin 2, setsScheduled = Fin 2,
       setsTaken = Fin 1, closedSets = Fin 1, setterMetrics.revenueGenerated = Fin 10,
       setterMetrics.newCashCollected = Fin 4, setterMetrics.recurringCashCollected = Fin 3,
       setterMetrics.downsellRevenue = Fin 3\<rparr>"]
  have "dialer_errors (Some ''2024-01-01'')
      \<lparr>dials = Fin 10, connects = Fin 5, conversations = Fin 8, qualifiedConversations = Fin 2,
       meetingsScheduled = Fin 0, meetingsSet = Fin 1, meetingsShowed = Fin 3,
       dialerMetrics.noShows = Fin 0, closedDeals = Fin 4,
       dialerMetrics.revenueGenerated = Fin 0, dialerMetrics.cashCollected = Fin 0\<rparr>
     = [(''conversations'', ''Conversations cannot exceed Connects'')]"
    unfolding t1 [THEN conjunct1] by (simp add: reportFirst_def d bd)
  moreover have "crossEntries (closer_errors None
      \<lparr>dailyCallsBooked = Fin 5, shows = Fin 4, closerMetrics.noShows = Fin 1,
       cancelled = Fin 0, disqualified = Fin 0, rescheduled = Fin 0, offersMade = Fin 7,
       callsTaken = Fin 6, closes = Fin 9, closerMetrics.cashCollected = NaN,
       closerMetrics.revenueGenerated = Fin 3\<rparr>)
     = [(''callsTaken'', ''Calls Taken cannot exceed Daily Calls Booked'')]"
    unfolding t2 [THEN conjunct2, THEN conjunct2, THEN conjunct2, THEN conjunct2, THEN conjunct1]
    by (simp add: c)
  moreover have "setter_errors (Some ''2024-01-01'')
      \<lparr>dailyOutboundConversations = Fin 5, inboundConversations = Fin 2, followUps = Fin 1,
       callsProposed = Fin 3, totalHighTicketSalesCallsBooked = Fin 2, setsScheduled = Fin 2,
       setsTaken = Fin 1, closedSets = Fin 1, setterMetrics.revenueGenerated = Fin 10,
       setterMetrics.newCashCollected = Fin 4, setterMetrics.recurringCashCollected = Fin 3,
       setterMetrics.downsellRevenue = Fin 3\<rparr> = []"
    unfolding t1 [THEN conjunct2, THEN conjunct2, THEN conjunct2, THEN conjunct2,
        THEN conjunct2, THEN conjunct2, THEN conjunct1]
    by (simp add: reportFirst_def s bs)
  ultimately show ?thesis using n by (intro conjI)
qed

subsection \<open>The dialer's revenue rule\<close>

text \<open>
  Claim C2 says that a dialer submission with closed deals and a revenue of 0 is rejected
  on \<^verbatim>\<open>revenueGenerated\<close>. The rule of the handler tests
  \<^verbatim>\<open>revenueGenerated < 0 && closedDeals > 0\<close>, although its message reads
  "Revenue Generated must be greater than 0 if Closed Deals > 0": at one closed deal and a
  revenue of 0, every other rule being met, the errors object is empty and the submission
  is accepted.
\<close>

theorem dialer_zero_revenue_accepted:
  "dialer_errors (Some ''2024-01-01'')
     \<lparr>dials = Fin 1, connects = Fin 1, conversations = Fin 1, qualifiedConversations = Fin 1,
      meetingsScheduled = Fin 0, meetingsSet = Fin 1, meetingsShowed = Fin 1,
      dialerMetrics.noShows = Fin 0, closedDeals = Fin 1,
      dialerMetrics.revenueGenerated = Fin 0, dialerMetrics.cashCollected = Fin 0\<rparr> = []"
  by (simp add: dialer_errors_def dialer_cross_def dialer_entries_def dateCheck_def falsy_def
      isNaN_def js_gt_def js_ne_def js_eq_def js_le_def)

subsection \<open>The closer's sum rule\<close>

lemma closer_sum_rule:
  assumes "js_ne (dailyCallsBooked m) (closer_outcomes m)"
  shows "closer_errors date m =
     AList.update ''dailyCallsBooked''
       ''Daily Calls Booked must equal the sum of Shows, No Shows, Cancelled, Disqualified, and Rescheduled''
       (fieldChecks (closer_entries m) (dateCheck date))"
  using assms by (simp add: closer_errors_def closer_cross_def)

text \<open>
  Claim C4. The closer's chain starts with the rule that the calls booked equal the sum of
  the five outcomes: whenever that equality fails, the one cross-field entry of the errors
  object is the one under \<^verbatim>\<open>dailyCallsBooked\<close>, whatever the later rules would
  say. With a date given, the submission 10 = 4 + 3 + 1 + 1 + 1 (the other metrics 0) has
  an empty errors object, and the same submission with 2 rescheduled (sum 11) has the
  single entry under \<^verbatim>\<open>dailyCallsBooked\<close>.
\<close>

theorem closer_sum_rule_first:
  "(js_ne (dailyCallsBooked m) (closer_outcomes m) \<longrightarrow>
      crossEntries (closer_errors date m) =
        [(''dailyCallsBooked'',
          ''Daily Calls Booked must equal the sum of Shows, No Shows, Cancelled, Disqualified, and Rescheduled'')])
   \<and> (\<not> falsy date \<longrightarrow>
      closer_errors date
        \<lparr>dailyCallsBooked = Fin 10, shows = Fin 4, closerMetrics.noShows = Fin 3,
         cancelled = Fin 1, disqualified = Fin 1, rescheduled = Fin 1, offersMade = Fin 0,
         callsTaken = Fin 0, closes = Fin 0, closerMetrics.cashCollected = Fin 0,
         closerMetrics.revenueGenerated = Fin 0\<rparr> = []
      \<and> closer_errors date
        \<lparr>dailyCallsBooked = Fin 10, shows = Fin 4, closerMetrics.noShows = Fin 3,
         cancelled = Fin 1, disqualified = Fin 1, rescheduled = Fin 2, offersMade = Fin 0,
         callsTaken = Fin 0, closes = Fin 0, closerMetrics.cashCollected = Fin 0,
         closerMetrics.revenueGenerated = Fin 0\<rparr> =
        [(''dailyCallsBooked'',
          ''Daily Calls Booked must equal the sum of Shows, No Shows, Cancelled, Disqualified, and Rescheduled'')])"
proof (intro conjI impI)
  assume h: "js_ne (dailyCallsBooked m) (closer_outcomes m)"
  have base: "filter (\<lambda>(key, msg). msg \<noteq> ''Please enter a valid number'' \<and> msg \<noteq> ''Please select a date'')
      (fieldChecks (closer_entries m) (dateCheck date)) = []"
    using crossEntries_base [of "closer_entries m" date] by (simp add: crossEntries_def)
  show "crossEntries (closer_errors date m) =
        [(''dailyCallsBooked'',
          ''Daily Calls Booked must equal the sum of Shows, No Shows, Cancelled, Disqualified, and Rescheduled'')]"
    unfolding closer_sum_rule [OF h] crossEntries_def
    by (rule filter_update_single [OF base]) simp
next
  assume "\<not> falsy date"
  then show "closer_errors date
        \<lparr>dailyCallsBooked = Fin 10, shows = Fin 4, closerMetrics.noShows = Fin 3,
         cancelled = Fin 1, disqualified = Fin 1, rescheduled = Fin 1, offersMade = Fin 0,
         callsTaken = Fin 0, closes = Fin 0, closerMetrics.cashCollected = Fin 0,
         closerMetrics.revenueGenerated = Fin 0\<rparr> = []"
    by (simp add: closer_errors_def closer_cross_def closer_entries_def closer_outcomes_def
        dateCheck_def isNaN_def js_gt_def js_ne_def js_eq_def js_le_def js_sub_def)
next
  assume "\<not> falsy date"
  then show "closer_errors date
        \<lparr>dailyCallsBooked = Fin 10, shows = Fin 4, closerMetrics.noShows = Fin 3,
         cancelled = Fin 1, disqualified = Fin 1, rescheduled = Fin 2, offersMade = Fin 0,
         callsTaken = Fin 0, closes = Fin 0, closerMetrics.cashCollected = Fin 0,
         closerMetrics.revenueGenerated = Fin 0\<rparr> =
        [(''dailyCallsBooked'',
          ''Daily Calls Booked must equal the sum of Shows, No Shows, Cancelled, Disqualified, and Rescheduled'')]"
    by (simp add: closer_errors_def closer_cross_def closer_entries_def closer_outcomes_def
        dateCheck_def isNaN_def js_gt_def js_ne_def js_eq_def js_le_def js_sub_def)
qed

theorem closer_sum_rule_first_witness:
  "js_ne (Fin 10) (Fin 11) \<and> \<not> falsy (Some ''2024-01-01'')
   \<and> closer_errors (Some ''2024-01-01'')
        \<lparr>dailyCallsBooked = Fin 10, shows = Fin 4, closerMetrics.noShows = Fin 3,
         cancelled = Fin 1, disqualified = Fin 1, rescheduled = Fin 1, offersMade = Fin 0,
         callsTaken = Fin 0, closes = Fin 0, closerMetrics.cashCollected = Fin 0,
         closerMetrics.revenueGenerated = Fin 0\<rparr> = []
   \<and> crossEntries (closer_errors (Some ''2024-01-01'')
        \<lparr>dailyCallsBooked = Fin 10, shows = Fin 4, closerMetrics.noShows = Fin 3,
         cancelled = Fin 1, disqualified = Fin 1, rescheduled = Fin 2, offersMade = Fin 0,
         callsTaken = Fin 0, closes = Fin 0, closerMetrics.cashCollected = Fin 0,
         closerMetrics.revenueGenerated = Fin 0\<rparr>) =
        [(''dailyCallsBooked'',
          ''Daily Calls Booked must equal the sum of Shows, No Shows, Cancelled, Disqualified, and Rescheduled'')]"
  using closer_sum_rule_first [of "\<lparr>dailyCallsBooked = Fin 10, shows = Fin 4, closerMetrics.noShows = Fin 3,
         cancelled = Fin 1, disqualified = Fin 1, rescheduled = Fin 2, offersMade = Fin 0,
         callsTaken = Fin 0, closes = Fin 0, closerMetrics.cashCollected = Fin 0,
         closerMetrics.revenueGenerated = Fin 0\<rparr>" "Some ''2024-01-01''"]
  by (simp add: closer_outcomes_def js_ne_def js_eq_def falsy_def crossEntries_def)

subsection \<open>The setter's revenue breakdown\<close>

lemma nn_sum:
  assumes "\<not> isNaN a \<and> \<not> js_lt a zero" "\<not> isNaN b \<and> \<not> js_lt b zero" "\<not> isNaN c \<and> \<not> js_lt c zero"
    and "\<not> js_lt r (js_add (js_add a b) c)"
  shows "\<not> js_gt a r \<and> \<not> js_gt b r \<and> \<not> js_gt c r"
  using assms by (cases a; cases b; cases c; cases r) (auto simp: isNaN_def js_gt_def)

lemma nn_sum_le:
  assumes "\<not> isNaN a \<and> \<not> js_lt a zero" "\<not> isNaN b \<and> \<not> js_lt b zero" "\<not> isNaN c \<and> \<not> js_lt c zero"
    and "\<not> isNaN r" and "\<not> js_lt r (js_add (js_add a b) c)"
  shows "js_le a r \<and> js_le b r \<and> js_le c r"
  using assms by (cases a; cases b; cases c; cases r) (auto simp: isNaN_def js_le_def js_eq_def)

lemma part_if:
  "(c \<Longrightarrow> r1 = e \<or> (\<exists>k v. v \<noteq> msg \<and> r1 = AList.update k v e)) \<Longrightarrow>
   (\<not> c \<Longrightarrow> r2 = e \<or> (\<exists>k v. v \<noteq> msg \<and> r2 = AList.update k v e)) \<Longrightarrow>
   (if c then r1 else r2) = e \<or> (\<exists>k v. v \<noteq> msg \<and> (if c then r1 else r2) = AList.update k v e)"
  by simp

lemma part_upd:
  "v \<noteq> msg \<Longrightarrow> AList.update k v e = e \<or> (\<exists>k' v'. v' \<noteq> msg \<and> AList.update k v e = AList.update k' v' e)"
  by blast

lemma part_same: "e = e \<or> (\<exists>k v. v \<noteq> msg \<and> e = AList.update k v (e :: ('a \<times> 'b) list))"
  by simp

lemma part_absurd:
  "False \<Longrightarrow> r = e \<or> (\<exists>k v. v \<noteq> msg \<and> r = AList.update k v (e :: ('a \<times> 'b) list))"
  by simp

lemma setter_cross_nonneg:
  assumes "\<not> isNaN (setterMetrics.newCashCollected m) \<and> \<not> js_lt (setterMetrics.newCashCollected m) zero"
    and "\<not> isNaN (setterMetrics.recurringCashCollected m) \<and> \<not> js_lt (setterMetrics.recurringCashCollected m) zero"
    and "\<not> isNaN (setterMetrics.downsellRevenue m) \<and> \<not> js_lt (setterMetrics.downsellRevenue m) zero"
  shows "setter_cross m errors = errors \<or>
    (\<exists>k v. v \<noteq> ''Cannot exceed Revenue Generated'' \<and> setter_cross m errors = AList.update k v errors)"
proof -
  have dead: "\<not> js_lt (setterMetrics.revenueGenerated m) (setter_breakdown m) \<Longrightarrow>
     \<not> js_gt (setterMetrics.newCashCollected m) (setterMetrics.revenueGenerated m) \<and>
     \<not> js_gt (setterMetrics.recurringCashCollected m) (setterMetrics.revenueGenerated m) \<and>
     \<not> js_gt (setterMetrics.downsellRevenue m) (setterMetrics.revenueGenerated m)"
    unfolding setter_breakdown_def by (rule nn_sum [OF assms])
  show ?thesis
    unfolding setter_cross_def
    apply (intro part_if)
            apply (rule part_upd, simp)
           apply (rule part_upd, simp)
          apply (rule part_upd, simp)
         apply (rule part_upd, simp)
        apply (rule part_upd, simp)
       apply (rule part_absurd, use dead in blast)
      apply (rule part_absurd, use dead in blast)
     apply (rule part_absurd, use dead in blast)
    apply (rule part_same)
    done
qed

lemma base_messages:
  assumes "(k, v) \<in> set (fieldChecks entries (dateCheck date))"
  shows "v = ''Please enter a valid number'' \<or> v = ''Please select a date''"
proof -
  have "filter (\<lambda>(key, msg). msg \<noteq> ''Please enter a valid number'' \<and> msg \<noteq> ''Please select a date'')
      (fieldChecks entries (dateCheck date)) = []"
    using crossEntries_base [of entries date] by (simp add: crossEntries_def)
  with assms show ?thesis unfolding filter_empty_conv by blast
qed

text \<open>
  Claim C10. When every metric of a setter submission is numeric and not negative, a
  revenue that is not below the sum of its three breakdown columns is at least each of
  them, so the three branches that come after that rule in the chain cannot be taken: the
  errors object never holds the message "Cannot exceed Revenue Generated" under
  \<^verbatim>\<open>newCashCollected\<close>, \<^verbatim>\<open>recurringCashCollected\<close> or \<^verbatim>\<open>downsellRevenue\<close>.
\<close>

theorem setter_breakdown_branches_dead:
  assumes "list_all (\<lambda>(key, v). nonNegative v) (setter_entries m)"
  shows "(\<not> js_lt (setterMetrics.revenueGenerated m) (setter_breakdown m) \<longrightarrow>
            js_le (setterMetrics.newCashCollected m) (setterMetrics.revenueGenerated m) \<and>
            js_le (setterMetrics.recurringCashCollected m) (setterMetrics.revenueGenerated m) \<and>
            js_le (setterMetrics.downsellRevenue m) (setterMetrics.revenueGenerated m))
         \<and> (''newCashCollected'', ''Cannot exceed Revenue Generated'') \<notin> set (setter_errors date m)
         \<and> (''recurringCashCollected'', ''Cannot exceed Revenue Generated'') \<notin> set (setter_errors date m)
         \<and> (''downsellRevenue'', ''Cannot exceed Revenue Generated'') \<notin> set (setter_errors date m)"
proof -
  from assms have nn:
    "\<not> isNaN (setterMetrics.revenueGenerated m)"
    "\<not> isNaN (setterMetrics.newCashCollected m) \<and> \<not> js_lt (setterMetrics.newCashCollected m) zero"
    "\<not> isNaN (setterMetrics.recurringCashCollected m) \<and> \<not> js_lt (setterMetrics.recurringCashCollected m) zero"
    "\<not> isNaN (setterMetrics.downsellRevenue m) \<and> \<not> js_lt (setterMetrics.downsellRevenue m) zero"
    by (simp_all add: setter_entries_def nonNegative_def)
  have le: "\<not> js_lt (setterMetrics.revenueGenerated m) (setter_breakdown m) \<longrightarrow>
            js_le (setterMetrics.newCashCollected m) (setterMetrics.revenueGenerated m) \<and>
            js_le (setterMetrics.recurringCashCollected m) (setterMetrics.revenueGenerated m) \<and>
            js_le (setterMetrics.downsellRevenue m) (setterMetrics.revenueGenerated m)"
    unfolding setter_breakdown_def using nn_sum_le [OF nn(2) nn(3) nn(4) nn(1)] by blast
  have none: "(k, ''Cannot exceed Revenue Generated'') \<notin> set (setter_errors date m)" for k
  proof
    assume mem: "(k, ''Cannot exceed Revenue Generated'') \<in> set (setter_errors date m)"
    let ?base = "fieldChecks (setter_entries m) (dateCheck date)"
    from setter_cross_nonneg [OF nn(2) nn(3) nn(4), of ?base]
    have "(k, ''Cannot exceed Revenue Generated'') \<in> set ?base"
    proof
      assume "setter_cross m ?base = ?base"
      with mem show ?thesis by (simp add: setter_errors_def)
    next
      assume "\<exists>k' v. v \<noteq> ''Cannot exceed Revenue Generated'' \<and> setter_cross m ?base = AList.update k' v ?base"
      then obtain k' v where v: "v \<noteq> ''Cannot exceed Revenue Generated''"
        and e: "setter_cross m ?base = AList.update k' v ?base" by blast
      from mem e have "(k, ''Cannot exceed Revenue Generated'') \<in> set (AList.update k' v ?base)"
        by (simp add: setter_errors_def)
      with set_update_subset [of k' v ?base] v show ?thesis by auto
    qed
    from base_messages [OF this] show False by simp
  qed
  from le none show ?thesis by blast
qed

theorem setter_breakdown_branches_dead_witness:
  "list_all (\<lambda>(key, v). nonNegative v)
     (setter_entries
       \<lparr>dailyOutboundConversations = Fin 5, inboundConversations = Fin 2, followUps = Fin 1,
        callsProposed = Fin 3, totalHighTicketSalesCallsBooked = Fin 2, setsScheduled = Fin 2,
        setsTaken = Fin 1, closedSets = Fin 1, setterMetrics.revenueGenerated = Fin 10,
        setterMetrics.newCashCollected = Fin 4, setterMetrics.recurringCashCollected = Fin 3,
        setterMetrics.downsellRevenue = Fin 3\<rparr>)
   \<and> js_le (Fin 4) (Fin 10) \<and> js_le (Fin 3) (Fin 10)
   \<and> (''newCashCollected'', ''Cannot exceed Revenue Generated'') \<notin> set (setter_errors (Some ''2024-01-01'')
       \<lparr>dailyOutboundConversations = Fin 5, inboundConversations = Fin 2, followUps = Fin 1,
        callsProposed = Fin 3, totalHighTicketSalesCallsBooked = Fin 2, setsScheduled = Fin 2,
        setsTaken = Fin 1, closedSets = Fin 1, setterMetrics.revenueGenerated = Fin 10,
        setterMetrics.newCashCollected = Fin 4, setterMetrics.recurringCashCollected = Fin 3,
        setterMetrics.downsellRevenue = Fin 3\<rparr>)"
proof -
  have h: "list_all (\<lambda>(key, v). nonNegative v)
     (setter_entries
       \<lparr>dailyOutboundConversations = Fin 5, inboundConversations = Fin 2, followUps = Fin 1,
        callsProposed = Fin 3, totalHighTicketSalesCallsBooked = Fin 2, setsScheduled = Fin 2,
        setsTaken = Fin 1, closedSets = Fin 1, setterMetrics.revenueGenerated = Fin 10,
        setterMetrics.newCashCollected = Fin 4, setterMetrics.recurringCashCollected = Fin 3,
        setterMetrics.downsellRevenue = Fin 3\<rparr>)"
    by (simp add: setter_entries_def nonNegative_def isNaN_def)
  show ?thesis
    using h setter_breakdown_branches_dead [OF h, of "Some ''2024-01-01''"]
    by (simp add: setter_breakdown_def)
qed

section \<open>Properties of the analytics\<close>

subsection \<open>Percentage delta\<close>





subsection \<open>Day arithmetic\<close>

lemma startOfDay_mod: "startOfDay t mod dayMs = 0"
  unfolding startOfDay_def by (simp add: minus_mod_eq_mult_div)

lemma subDays_mod: "subDays t n mod dayMs = t mod dayMs"
  unfolding subDays_def by (simp add: mod_diff_eq [symmetric, of t "n * dayMs" dayMs] )

lemma startOfDay_subDays: "startOfDay (subDays t n) = subDays (startOfDay t) n"
  unfolding startOfDay_def subDays_mod by (simp add: subDays_def)

lemma endOfDay_subDays: "endOfDay (subDays t n) = subDays (endOfDay t) n"
  unfolding endOfDay_def startOfDay_subDays by (simp add: subDays_def)

lemma endOfDay_mod: "endOfDay t mod dayMs = dayMs - 1"
proof -
  have "endOfDay t mod dayMs = (startOfDay t mod dayMs + (dayMs - 1)) mod dayMs"
    unfolding endOfDay_def by (simp add: mod_add_left_eq)
  then show ?thesis by (simp add: startOfDay_mod) (simp add: dayMs_def)
qed

lemma startOfDay_endOfDay: "startOfDay (endOfDay t) = startOfDay t"
  using endOfDay_mod [of t] by (simp add: startOfDay_def) (simp add: endOfDay_def startOfDay_def)

lemma startOfDay_idem: "startOfDay (startOfDay t) = startOfDay t"
  using startOfDay_mod [of t] by (simp add: startOfDay_def [of "startOfDay t"])

lemma endOfDay_idem: "endOfDay (endOfDay t) = endOfDay t"
  by (simp add: endOfDay_def [of "endOfDay t"] startOfDay_endOfDay) (simp add: endOfDay_def)

subsection \<open>The resolved windows\<close>

text \<open>
  Claim C7. For the token \<^verbatim>\<open>7d\<close>, at any instant \<open>now\<close> and whatever the other
  parameters: the current window ends at the end of the day of \<open>now\<close> and starts at the
  start of the day six days before, which makes seven whole days; the previous window is
  the current one moved back by seven days, seven whole days too; and the previous window
  ends on the millisecond before the current one starts, so there is neither a gap nor an
  overlap.
\<close>

theorem range_7d_windows:
  "(let r = resolveRange parseISO toZonedTime now (Some ''7d'') startDate endDate in
      end r = endOfDay now
      \<and> start r = startOfDay (subDays (end r) 6)
      \<and> start r mod dayMs = 0
      \<and> end r - start r + 1 = 7 * dayMs
      \<and> daysInRange r = 7
      \<and> previousStart r = start r - 7 * dayMs
      \<and> previousEnd r = end r - 7 * dayMs
      \<and> previousEnd r - previousStart r + 1 = 7 * dayMs
      \<and> daysInPreviousRange r = 7
      \<and> previousEnd r + 1 = start r)"
  by (simp add: resolveRange_def Let_def startOfDay_subDays endOfDay_subDays startOfDay_endOfDay
      startOfDay_idem endOfDay_idem startOfDay_mod subDays_mod)
    (simp add: subDays_def endOfDay_def)

text \<open>
  Claim C8 says that a custom range with a date that does not parse gives the default
  30-day window. The handler does answer without an error and with both day counts at 30,
  but its fallback branch takes \<^verbatim>\<open>subDays(end, 30)\<close> where the default branch takes
  \<^verbatim>\<open>subDays(end, 29)\<close>: the current window starts one day earlier than the default
  one and spans 31 days, and the previous window ends at the end of that first day, one
  day inside the current window.
\<close>

theorem custom_fallback_window:
  assumes "truthy startDate" and "truthy endDate"
    and "Option.bind startDate parseISO = None \<or> Option.bind endDate parseISO = None"
  shows "(let r = resolveRange parseISO toZonedTime now (Some ''custom'') startDate endDate;
              d = resolveRange parseISO toZonedTime now (Some ''30d'') startDate endDate
          in daysInRange r = 30 \<and> daysInPreviousRange r = 30
             \<and> end r = endOfDay now \<and> end d = endOfDay now
             \<and> start d = startOfDay now - 29 * dayMs
             \<and> start r = startOfDay now - 30 * dayMs
             \<and> end r - start r + 1 = 31 * dayMs
             \<and> previousEnd r = start r + (dayMs - 1))"
proof -
  have r: "resolveRange parseISO toZonedTime now (Some ''custom'') startDate endDate =
      \<lparr>start = startOfDay (subDays (endOfDay now) 30), end = endOfDay (endOfDay now),
       previousStart = startOfDay (subDays (startOfDay (subDays (endOfDay now) 30)) 30),
       previousEnd = endOfDay (subDays (endOfDay (endOfDay now)) 30),
       daysInRange = 30, daysInPreviousRange = 30\<rparr>"
    using assms by (auto simp: resolveRange_def Let_def split: option.splits)
  have d: "resolveRange parseISO toZonedTime now (Some ''30d'') startDate endDate =
      \<lparr>start = startOfDay (subDays (endOfDay now) 29), end = endOfDay now,
       previousStart = startOfDay (subDays (startOfDay (subDays (endOfDay now) 29)) 30),
       previousEnd = endOfDay (subDays (endOfDay now) 30),
       daysInRange = 30, daysInPreviousRange = 30\<rparr>"
    by (simp add: resolveRange_def Let_def)
  show ?thesis
    unfolding r d Let_def
    by (simp add: startOfDay_subDays endOfDay_subDays startOfDay_endOfDay startOfDay_idem
        endOfDay_idem)
      (simp add: subDays_def endOfDay_def)
qed

theorem custom_fallback_window_witness:
  "truthy (Some ''not-a-date'') \<and> truthy (Some ''2024-01-10'')
   \<and> Option.bind (Some ''not-a-date'') (\<lambda>s. None :: int option) = None
   \<and> daysInRange (resolveRange (\<lambda>s. None) id 1700000000000 (Some ''custom'')
         (Some ''not-a-date'') (Some ''2024-01-10'')) = 30
   \<and> start (resolveRange (\<lambda>s. None) id 1700000000000 (Some ''custom'')
         (Some ''not-a-date'') (Some ''2024-01-10'')) = 1697328000000
   \<and> end (resolveRange (\<lambda>s. None) id 1700000000000 (Some ''custom'')
         (Some ''not-a-date'') (Some ''2024-01-10'')) = 1700006399999
   \<and> previousEnd (resolveRange (\<lambda>s. None) id 1700000000000 (Some ''custom'')
         (Some ''not-a-date'') (Some ''2024-01-10'')) = 1697414399999
   \<and> start (resolveRange (\<lambda>s. None) id 1700000000000 (Some ''30d'')
         (Some ''not-a-date'') (Some ''2024-01-10'')) = 1697414400000"
proof -
  have h: "truthy (Some ''not-a-date'')" "truthy (Some ''2024-01-10'')"
    "Option.bind (Some ''not-a-date'') (\<lambda>s. None :: int option) = None
     \<or> Option.bind (Some ''2024-01-10'') (\<lambda>s. None :: int option) = None"
    by (simp_all add: truthy_def)
  show ?thesis
    using h custom_fallback_window [OF h, of id 1700000000000]
    by (simp add: Let_def startOfDay_def endOfDay_def dayMs_def)
qed

section \<open>Properties of the write endpoint\<close>

subsection \<open>A submission that fails validation\<close>

lemma respond_failed:
  assumes "errors \<noteq> []"
  shows "respond newDate db pid date forceOverwrite m errors =
     ((if forceOverwrite then ErrorsResponse errors
       else case findUnique db pid (newDate date) of
              Rejected \<Rightarrow> Thrown
            | Resolved None \<Rightarrow> ErrorsResponse errors
            | Resolved (Some existingMetric) \<Rightarrow> Conflict date), db)"
  using assms by (simp add: respond_def split: promise.splits option.splits)

text \<open>
  Claim C1, as amended. In each role, a submission whose errors object is not empty is
  never written: the collection is returned as it was. The look-up of an existing row comes
  before the return of the errors in the handler, so the answer is the errors object when
  the overwrite flag is set or no row exists for the key, and the conflict answer when the
  flag is unset and a row exists for the key (and the handler throws when the flag is
  unset and the date is not one the database accepts).
\<close>

theorem failed_validation_outcome:
  "(dialer_errors date dm \<noteq> [] \<longrightarrow>
      dialer_action newDate ddb date forceOverwrite dm =
        ((if forceOverwrite then ErrorsResponse (dialer_errors date dm)
          else case findUnique ddb dialerId (newDate date) of
                 Rejected \<Rightarrow> Thrown
               | Resolved None \<Rightarrow> ErrorsResponse (dialer_errors date dm)
               | Resolved (Some existingMetric) \<Rightarrow> Conflict date), ddb))
   \<and> (closer_errors date cm \<noteq> [] \<longrightarrow>
      closer_action newDate cdb date forceOverwrite cm =
        ((if forceOverwrite then ErrorsResponse (closer_errors date cm)
          else case findUnique cdb closerId (newDate date) of
                 Rejected \<Rightarrow> Thrown
               | Resolved None \<Rightarrow> ErrorsResponse (closer_errors date cm)
               | Resolved (Some existingMetric) \<Rightarrow> Conflict date), cdb))
   \<and> (setter_errors date sm \<noteq> [] \<longrightarrow>
      setter_action newDate sdb date forceOverwrite sm =
        ((if forceOverwrite then ErrorsResponse (setter_errors date sm)
          else case findUnique sdb setterId (newDate date) of
                 Rejected \<Rightarrow> Thrown
               | Resolved None \<Rightarrow> ErrorsResponse (setter_errors date sm)
               | Resolved (Some existingMetric) \<Rightarrow> Conflict date), sdb))"
  unfolding dialer_action_def closer_action_def setter_action_def
  by (intro conjI impI respond_failed)

theorem failed_validation_outcome_witness:
  "closer_errors (Some ''2024-01-01'')
      \<lparr>dailyCallsBooked = Fin 10, shows = Fin 4, closerMetrics.noShows = Fin 3,
       cancelled = Fin 1, disqualified = Fin 1, rescheduled = Fin 2, offersMade = Fin 0,
       callsTaken = Fin 0, closes = Fin 0, closerMetrics.cashCollected = Fin 0,
       closerMetrics.revenueGenerated = Fin 0\<rparr> \<noteq> []
   \<and> closer_action (\<lambda>d. if d = Some ''2024-01-01'' then Some 1704067200000 else None)
        Map.empty (Some ''2024-01-01'') False
        \<lparr>dailyCallsBooked = Fin 10, shows = Fin 4, closerMetrics.noShows = Fin 3,
         cancelled = Fin 1, disqualified = Fin 1, rescheduled = Fin 2, offersMade = Fin 0,
         callsTaken = Fin 0, closes = Fin 0, closerMetrics.cashCollected = Fin 0,
         closerMetrics.revenueGenerated = Fin 0\<rparr>
     = (ErrorsResponse
          [(''dailyCallsBooked'',
            ''Daily Calls Booked must equal the sum of Shows, No Shows, Cancelled, Disqualified, and Rescheduled'')],
        Map.empty)"
proof -
  have e: "closer_errors (Some ''2024-01-01'')
      \<lparr>dailyCallsBooked = Fin 10, shows = Fin 4, closerMetrics.noShows = Fin 3,
       cancelled = Fin 1, disqualified = Fin 1, rescheduled = Fin 2, offersMade = Fin 0,
       callsTaken = Fin 0, closes = Fin 0, closerMetrics.cashCollected = Fin 0,
       closerMetrics.revenueGenerated = Fin 0\<rparr> =
     [(''dailyCallsBooked'',
       ''Daily Calls Booked must equal the sum of Shows, No Shows, Cancelled, Disqualified, and Rescheduled'')]"
    by (simp add: closer_errors_def closer_cross_def closer_entries_def closer_outcomes_def
        dateCheck_def falsy_def isNaN_def js_ne_def js_eq_def)
  show ?thesis
    using failed_validation_outcome
      [where date = "Some ''2024-01-01''" and forceOverwrite = False and cdb = Map.empty
        and newDate = "\<lambda>d. if d = Some ''2024-01-01'' then Some 1704067200000 else None"
        and cm = "\<lparr>dailyCallsBooked = Fin 10, shows = Fin 4, closerMetrics.noShows = Fin 3,
         cancelled = Fin 1, disqualified = Fin 1, rescheduled = Fin 2, offersMade = Fin 0,
         callsTaken = Fin 0, closes = Fin 0, closerMetrics.cashCollected = Fin 0,
         closerMetrics.revenueGenerated = Fin 0\<rparr>"]
    by (simp add: e findUnique_def)
qed

text \<open>
  The claim as it was stated fails: a closer submission whose outcomes sum to 11 against
  10 calls booked has an errors object that is not empty, and with a row already stored for
  the day and the flag unset it is answered by the conflict, not by the errors.
\<close>

theorem failed_validation_conflict:
  "closer_errors (Some ''2024-01-01'')
      \<lparr>dailyCallsBooked = Fin 10, shows = Fin 4, closerMetrics.noShows = Fin 3,
       cancelled = Fin 1, disqualified = Fin 1, rescheduled = Fin 2, offersMade = Fin 0,
       callsTaken = Fin 0, closes = Fin 0, closerMetrics.cashCollected = Fin 0,
       closerMetrics.revenueGenerated = Fin 0\<rparr> \<noteq> []
   \<and> fst (closer_action (\<lambda>d. if d = Some ''2024-01-01'' then Some 1704067200000 else None)
        [(closerId, 1704067200000) \<mapsto>
           \<lparr>rowPerson = closerId, rowDate = 1704067200000,
            rowMetrics =
              \<lparr>dailyCallsBooked = Fin 1, shows = Fin 1, closerMetrics.noShows = Fin 0,
               cancelled = Fin 0, disqualified = Fin 0, rescheduled = Fin 0, offersMade = Fin 1,
               callsTaken = Fin 1, closes = Fin 1, closerMetrics.cashCollected = Fin 100,
               closerMetrics.revenueGenerated = Fin 100\<rparr>\<rparr>]
        (Some ''2024-01-01'') False
        \<lparr>dailyCallsBooked = Fin 10, shows = Fin 4, closerMetrics.noShows = Fin 3,
         cancelled = Fin 1, disqualified = Fin 1, rescheduled = Fin 2, offersMade = Fin 0,
         callsTaken = Fin 0, closes = Fin 0, closerMetrics.cashCollected = Fin 0,
         closerMetrics.revenueGenerated = Fin 0\<rparr>)
     = Conflict (Some ''2024-01-01'')"
  by (simp add: closer_action_def respond_def findUnique_def closer_errors_def closer_cross_def
      closer_outcomes_def js_ne_def js_eq_def)

subsection \<open>Resubmission on an existing key\<close>

text \<open>
  Claim C6, as amended. In each role, when a row exists for the key of the submission: a
  submission without the overwrite flag is answered by the conflict carrying the submitted
  date and the collection is unchanged; a submission with the flag set \<^emph>\<open>that passes
  validation\<close> succeeds, and the row of the key then holds the submitted metrics in place
  of all the former ones, every other row being as before.
\<close>

theorem resubmission_outcome:
  assumes "newDate date = Some t"
  shows "(ddb (dialerId, t) = Some dr \<longrightarrow>
            dialer_action newDate ddb date False dm = (Conflict date, ddb)
            \<and> (dialer_errors date dm = [] \<longrightarrow>
                 dialer_action newDate ddb date True dm =
                   (Success, ddb((dialerId, t) \<mapsto> dr\<lparr>rowMetrics := dm\<rparr>))))
       \<and> (cdb (closerId, t) = Some cr \<longrightarrow>
            closer_action newDate cdb date False cm = (Conflict date, cdb)
            \<and> (closer_errors date cm = [] \<longrightarrow>
                 closer_action newDate cdb date True cm =
                   (Success, cdb((closerId, t) \<mapsto> cr\<lparr>rowMetrics := cm\<rparr>))))
       \<and> (sdb (setterId, t) = Some sr \<longrightarrow>
            setter_action newDate sdb date False sm = (Conflict date, sdb)
            \<and> (setter_errors date sm = [] \<longrightarrow>
                 setter_action newDate sdb date True sm =
                   (Success, sdb((setterId, t) \<mapsto> sr\<lparr>rowMetrics := sm\<rparr>))))"
  using assms
  by (simp add: dialer_action_def closer_action_def setter_action_def respond_def
      findUnique_def upsert_def)

theorem resubmission_outcome_witness:
  "closer_action (\<lambda>d. if d = Some ''2024-01-01'' then Some 1704067200000 else None)
        [(closerId, 1704067200000) \<mapsto>
           \<lparr>rowPerson = closerId, rowDate = 1704067200000,
            rowMetrics =
              \<lparr>dailyCallsBooked = Fin 1, shows = Fin 1, closerMetrics.noShows = Fin 0,
               cancelled = Fin 0, disqualified = Fin 0, rescheduled = Fin 0, offersMade = Fin 1,
               callsTaken = Fin 1, closes = Fin 1, closerMetrics.cashCollected = Fin 100,
               closerMetrics.revenueGenerated = Fin 100\<rparr>\<rparr>]
        (Some ''2024-01-01'') True
        \<lparr>dailyCallsBooked = Fin 10, shows = Fin 4, closerMetrics.noShows = Fin 3,
         cancelled = Fin 1, disqualified = Fin 1, rescheduled = Fin 1, offersMade = Fin 0,
         callsTaken = Fin 0, closes = Fin 0, closerMetrics.cashCollected = Fin 0,
         closerMetrics.revenueGenerated = Fin 0\<rparr>
     = (Success,
        [(closerId, 1704067200000) \<mapsto>
           \<lparr>rowPerson = closerId, rowDate = 1704067200000,
            rowMetrics =
              \<lparr>dailyCallsBooked = Fin 10, shows = Fin 4, closerMetrics.noShows = Fin 3,
               cancelled = Fin 1, disqualified = Fin 1, rescheduled = Fin 1, offersMade = Fin 0,
               callsTaken = Fin 0, closes = Fin 0, closerMetrics.cashCollected = Fin 0,
               closerMetrics.revenueGenerated = Fin 0\<rparr>\<rparr>])
   \<and> fst (closer_action (\<lambda>d. if d = Some ''2024-01-01'' then Some 1704067200000 else None)
        [(closerId, 1704067200000) \<mapsto>
           \<lparr>rowPerson = closerId, rowDate = 1704067200000,
            rowMetrics =
              \<lparr>dailyCallsBooked = Fin 1, shows = Fin 1, closerMetrics.noShows = Fin 0,
               cancelled = Fin 0, disqualified = Fin 0, rescheduled = Fin 0, offersMade = Fin 1,
               callsTaken = Fin 1, closes = Fin 1, closerMetrics.cashCollected = Fin 100,
               closerMetrics.revenueGenerated = Fin 100\<rparr>\<rparr>]
        (Some ''2024-01-01'') False
        \<lparr>dailyCallsBooked = Fin 10, shows = Fin 4, closerMetrics.noShows = Fin 3,
         cancelled = Fin 1, disqualified = Fin 1, rescheduled = Fin 1, offersMade = Fin 0,
         callsTaken = Fin 0, closes = Fin 0, closerMetrics.cashCollected = Fin 0,
         closerMetrics.revenueGenerated = Fin 0\<rparr>) = Conflict (Some ''2024-01-01'')"
proof -
  have e: "closer_errors (Some ''2024-01-01'')
      \<lparr>dailyCallsBooked = Fin 10, shows = Fin 4, closerMetrics.noShows = Fin 3,
       cancelled = Fin 1, disqualified = Fin 1, rescheduled = Fin 1, offersMade = Fin 0,
       callsTaken = Fin 0, closes = Fin 0, closerMetrics.cashCollected = Fin 0,
       closerMetrics.revenueGenerated = Fin 0\<rparr> = []"
    by (simp add: closer_errors_def closer_cross_def closer_entries_def closer_outcomes_def
        dateCheck_def falsy_def isNaN_def js_gt_def js_ne_def js_eq_def js_le_def js_sub_def)
  show ?thesis
    using resubmission_outcome [where t = 1704067200000 and date = "Some ''2024-01-01''"
        and newDate = "\<lambda>d. if d = Some ''2024-01-01'' then Some 1704067200000 else None"
        and cr = "\<lparr>rowPerson = closerId, rowDate = 1704067200000,
            rowMetrics =
              \<lparr>dailyCallsBooked = Fin 1, shows = Fin 1, closerMetrics.noShows = Fin 0,
               cancelled = Fin 0, disqualified = Fin 0, rescheduled = Fin 0, offersMade = Fin 1,
               callsTaken = Fin 1, closes = Fin 1, closerMetrics.cashCollected = Fin 100,
               closerMetrics.revenueGenerated = Fin 100\<rparr>\<rparr>"
        and cdb = "[(closerId, 1704067200000) \<mapsto>
           \<lparr>rowPerson = closerId, rowDate = 1704067200000,
            rowMetrics =
              \<lparr>dailyCallsBooked = Fin 1, shows = Fin 1, closerMetrics.noShows = Fin 0,
               cancelled = Fin 0, disqualified = Fin 0, rescheduled = Fin 0, offersMade = Fin 1,
               callsTaken = Fin 1, closes = Fin 1, closerMetrics.cashCollected = Fin 100,
               closerMetrics.revenueGenerated = Fin 100\<rparr>\<rparr>]"
        and cm = "\<lparr>dailyCallsBooked = Fin 10, shows = Fin 4, closerMetrics.noShows = Fin 3,
         cancelled = Fin 1, disqualified = Fin 1, rescheduled = Fin 1, offersMade = Fin 0,
         callsTaken = Fin 0, closes = Fin 0, closerMetrics.cashCollected = Fin 0,
         closerMetrics.revenueGenerated = Fin 0\<rparr>"]
    by (simp add: e)
qed

text \<open>
  The claim as it was stated fails for a submission that does not pass validation: with
  the flag set and a row stored for the day, the closer submission whose outcomes sum to 11
  is answered by its errors, and the stored row keeps its former metrics.
\<close>

theorem overwrite_rejected_when_invalid:
  "snd (closer_action (\<lambda>d. if d = Some ''2024-01-01'' then Some 1704067200000 else None)
        [(closerId, 1704067200000) \<mapsto>
           \<lparr>rowPerson = closerId, rowDate = 1704067200000,
            rowMetrics =
              \<lparr>dailyCallsBooked = Fin 1, shows = Fin 1, closerMetrics.noShows = Fin 0,
               cancelled = Fin 0, disqualified = Fin 0, rescheduled = Fin 0, offersMade = Fin 1,
               callsTaken = Fin 1, closes = Fin 1, closerMetrics.cashCollected = Fin 100,
               closerMetrics.revenueGenerated = Fin 100\<rparr>\<rparr>]
        (Some ''2024-01-01'') True
        \<lparr>dailyCallsBooked = Fin 10, shows = Fin 4, closerMetrics.noShows = Fin 3,
         cancelled = Fin 1, disqualified = Fin 1, rescheduled = Fin 2, offersMade = Fin 0,
         callsTaken = Fin 0, closes = Fin 0, closerMetrics.cashCollected = Fin 0,
         closerMetrics.revenueGenerated = Fin 0\<rparr>) (closerId, 1704067200000)
     = Some \<lparr>rowPerson = closerId, rowDate = 1704067200000,
            rowMetrics =
              \<lparr>dailyCallsBooked = Fin 1, shows = Fin 1, closerMetrics.noShows = Fin 0,
               cancelled = Fin 0, disqualified = Fin 0, rescheduled = Fin 0, offersMade = Fin 1,
               callsTaken = Fin 1, closes = Fin 1, closerMetrics.cashCollected = Fin 100,
               closerMetrics.revenueGenerated = Fin 100\<rparr>\<rparr>
   \<and> fst (closer_action (\<lambda>d. if d = Some ''2024-01-01'' then Some 1704067200000 else None)
        [(closerId, 1704067200000) \<mapsto>
           \<lparr>rowPerson = closerId, rowDate = 1704067200000,
            rowMetrics =
              \<lparr>dailyCallsBooked = Fin 1, shows = Fin 1, closerMetrics.noShows = Fin 0,
               cancelled = Fin 0, disqualified = Fin 0, rescheduled = Fin 0, offersMade = Fin 1,
               callsTaken = Fin 1, closes = Fin 1, closerMetrics.cashCollected = Fin 100,
               closerMetrics.revenueGenerated = Fin 100\<rparr>\<rparr>]
        (Some ''2024-01-01'') True
        \<lparr>dailyCallsBooked = Fin 10, shows = Fin 4, closerMetrics.noShows = Fin 3,
         cancelled = Fin 1, disqualified = Fin 1, rescheduled = Fin 2, offersMade = Fin 0,
         callsTaken = Fin 0, closes = Fin 0, closerMetrics.cashCollected = Fin 0,
         closerMetrics.revenueGenerated = Fin 0\<rparr>)
     = ErrorsResponse
          [(''dailyCallsBooked'',
            ''Daily Calls Booked must equal the sum of Shows, No Shows, Cancelled, Disqualified, and Rescheduled'')]"
  by (simp add: closer_action_def respond_def closer_errors_def closer_cross_def
      closer_entries_def closer_outcomes_def dateCheck_def falsy_def isNaN_def js_ne_def js_eq_def)

section \<open>Properties of the revenue series\<close>

lemma dayTotal_snoc:
  "dayTotal tz (ms @ [m]) k =
     (if dayKey tz (metricDate m) = k then addToBucket m (dayTotal tz ms k) else dayTotal tz ms k)"
  by (simp add: dayTotal_def addToBucket_def Let_def)

lemma dayTotal_absent:
  "k \<notin> (\<lambda>m. dayKey tz (metricDate m)) ` set ms \<Longrightarrow> dayTotal tz ms k = emptyBucket"
proof -
  assume "k \<notin> (\<lambda>m. dayKey tz (metricDate m)) ` set ms"
  then have "filter (\<lambda>metric. dayKey tz (metricDate metric) = k) ms = []"
    by (auto simp: filter_empty_conv)
  then show ?thesis by (simp add: dayTotal_def emptyBucket_def)
qed

lemma map_of_addMetric:
  "map_of (addMetric tz acc m) =
     (map_of acc)(dayKey tz (metricDate m) \<mapsto>
        addToBucket m (case map_of acc (dayKey tz (metricDate m)) of
                         None \<Rightarrow> emptyBucket | Some b \<Rightarrow> b))"
proof (cases "map_of acc (dayKey tz (metricDate m))")
  case None
  then show ?thesis
    by (simp add: addMetric_def Let_def map_of_map_entry update_conv')
next
  case (Some b)
  then show ?thesis
    by (simp add: addMetric_def Let_def map_of_map_entry)
qed

lemma distinct_addMetric:
  "distinct (map fst acc) \<Longrightarrow> distinct (map fst (addMetric tz acc m))"
  by (simp add: addMetric_def Let_def distinct_map_entry distinct_update)

lemma dailyRevenueData_snoc:
  "dailyRevenueData tz (ms @ [m]) = addMetric tz (dailyRevenueData tz ms) m"
  by (simp add: dailyRevenueData_def)

lemma distinct_dailyRevenueData: "distinct (map fst (dailyRevenueData tz ms))"
proof (induction ms rule: rev_induct)
  case Nil
  then show ?case by (simp add: dailyRevenueData_def)
next
  case (snoc m ms)
  then show ?case by (simp add: dailyRevenueData_snoc distinct_addMetric)
qed

lemma map_of_dailyRevenueData:
  "map_of (dailyRevenueData tz ms) k =
     (if k \<in> (\<lambda>m. dayKey tz (metricDate m)) ` set ms then Some (dayTotal tz ms k) else None)"
proof (induction ms rule: rev_induct)
  case Nil
  then show ?case by (simp add: dailyRevenueData_def)
next
  case (snoc m ms)
  let ?keys = "(\<lambda>m. dayKey tz (metricDate m)) ` set ms"
  show ?case
  proof (cases "dayKey tz (metricDate m) = k")
    case True
    have "(case map_of (dailyRevenueData tz ms) k of None \<Rightarrow> emptyBucket | Some b \<Rightarrow> b)
        = dayTotal tz ms k"
    proof (cases "k \<in> ?keys")
      case True
      with snoc show ?thesis by simp
    next
      case False
      with snoc dayTotal_absent [OF False] show ?thesis by simp
    qed
    with True show ?thesis
      by (simp add: dailyRevenueData_snoc map_of_addMetric dayTotal_snoc)
  next
    case False
    have "map_of (dailyRevenueData tz (ms @ [m])) k = map_of (dailyRevenueData tz ms) k"
      using False by (simp add: dailyRevenueData_snoc map_of_addMetric)
    also have "\<dots> = (if k \<in> ?keys then Some (dayTotal tz ms k) else None)"
      by (rule snoc)
    also have "\<dots> = (if k \<in> (\<lambda>m. dayKey tz (metricDate m)) ` set (ms @ [m])
        then Some (dayTotal tz (ms @ [m]) k) else None)"
      using False by (simp add: dayTotal_snoc)
    finally show ?thesis .
  qed
qed

lemma keys_dailyRevenueData:
  "set (map fst (dailyRevenueData tz ms)) = (\<lambda>m. dayKey tz (metricDate m)) ` set ms"
proof -
  have "set (map fst (dailyRevenueData tz ms)) = dom (map_of (dailyRevenueData tz ms))"
    by (simp add: dom_map_of_conv_image_fst)
  also have "\<dots> = (\<lambda>m. dayKey tz (metricDate m)) ` set ms"
    by (auto simp: dom_def map_of_dailyRevenueData)
  finally show ?thesis .
qed

lemma keyTime_le: "keyTime a \<le> keyTime b \<longleftrightarrow> a \<le> b"
  by (simp add: keyTime_def dayMs_def)

lemma sorted_sortedDates: "sorted_wrt (<) (sortedDates tz ms)"
proof -
  have "sorted (map keyTime (sortedDates tz ms))"
    unfolding sortedDates_def by (rule sorted_sort_key)
  then have "sorted (sortedDates tz ms)"
    by (simp add: sorted_map keyTime_le)
  moreover have "distinct (sortedDates tz ms)"
    by (simp add: sortedDates_def distinct_dailyRevenueData)
  ultimately show ?thesis by (simp add: strict_sorted_iff)
qed

lemma set_sortedDates: "set (sortedDates tz ms) = (\<lambda>m. dayKey tz (metricDate m)) ` set ms"
  using keys_dailyRevenueData [of tz ms] by (simp add: sortedDates_def)

lemma keys_revenueOverTimeData: "map fst (revenueOverTimeData tz ms) = sortedDates tz ms"
  by (simp add: revenueOverTimeData_def comp_def)

lemma sum_list_filter_mset:
  assumes "mset ms' = mset ms"
  shows "sum_list (map f (filter P ms')) = (sum_list (map f (filter P ms)) :: rat)"
proof -
  have "mset (map f (filter P ms')) = mset (map f (filter P ms))"
    using assms by simp
  then have "sum_mset (mset (map f (filter P ms'))) = sum_mset (mset (map f (filter P ms)))"
    by (rule arg_cong)
  then show ?thesis by (simp only: sum_mset_sum_list)
qed

lemma dayTotal_mset:
  assumes "mset ms' = mset ms"
  shows "dayTotal tz ms' k = dayTotal tz ms k"
  unfolding dayTotal_def Let_def
  by (simp only: sum_list_filter_mset [OF assms])

lemma sortedDates_mset:
  assumes "mset ms' = mset ms"
  shows "sortedDates tz ms' = sortedDates tz ms"
proof (rule sorted_distinct_set_unique)
  show "sorted (sortedDates tz ms')" "distinct (sortedDates tz ms')"
    using sorted_sortedDates [of tz ms'] by (simp_all only: strict_sorted_iff)
  show "sorted (sortedDates tz ms)" "distinct (sortedDates tz ms)"
    using sorted_sortedDates [of tz ms] by (simp_all only: strict_sorted_iff)
  have "set ms' = set ms"
    using assms by (rule mset_eq_setD)
  then show "set (sortedDates tz ms') = set (sortedDates tz ms)"
    by (simp only: set_sortedDates)
qed

lemma revenueOverTimeData_eq:
  "revenueOverTimeData tz ms = map (\<lambda>k. (k, Some (dayTotal tz ms k))) (sortedDates tz ms)"
  unfolding revenueOverTimeData_def
  by (rule map_cong [OF refl]) (simp add: map_of_dailyRevenueData set_sortedDates)

text \<open>
  Claim C9. Whatever the order of the rows, the series of the revenue chart has its days
  in strictly ascending order, one bucket per day; its days are exactly the days of the
  rows, so a day without a row has no bucket; the bucket of a day holds, column by column,
  the sum over the rows of that day of the four sanitized revenue columns; and two lists
  with the same rows in different orders give the same series.
\<close>

theorem revenue_series_by_day:
  "sorted_wrt (<) (map fst (revenueOverTimeData tz ms))
   \<and> set (map fst (revenueOverTimeData tz ms)) = (\<lambda>m. dayKey tz (metricDate m)) ` set ms
   \<and> (\<forall>(k, b) \<in> set (revenueOverTimeData tz ms). b = Some (dayTotal tz ms k))
   \<and> (mset ms' = mset ms \<longrightarrow> revenueOverTimeData tz ms' = revenueOverTimeData tz ms)"
proof (intro conjI impI)
  show "sorted_wrt (<) (map fst (revenueOverTimeData tz ms))"
    by (simp only: keys_revenueOverTimeData sorted_sortedDates)
  show "set (map fst (revenueOverTimeData tz ms)) = (\<lambda>m. dayKey tz (metricDate m)) ` set ms"
    by (simp only: keys_revenueOverTimeData set_sortedDates)
  show "\<forall>(k, b) \<in> set (revenueOverTimeData tz ms). b = Some (dayTotal tz ms k)"
    by (auto simp: revenueOverTimeData_eq)
  assume h: "mset ms' = mset ms"
  show "revenueOverTimeData tz ms' = revenueOverTimeData tz ms"
    by (simp only: revenueOverTimeData_eq sortedDates_mset [OF h] dayTotal_mset [OF h])
qed


theorem revenue_series_by_day_witness:
  "revenueOverTimeData 0
       [\<lparr>metricDate = 1704240000000, settersMetric.revenueGenerated = Some 100, settersMetric.newCashCollected = Some 60, settersMetric.recurringCashCollected = Some 30, settersMetric.downsellRevenue = Some 10\<rparr>,
        \<lparr>metricDate = 1704067200000, settersMetric.revenueGenerated = Some 50, settersMetric.newCashCollected = None, settersMetric.recurringCashCollected = Some 20, settersMetric.downsellRevenue = Some 5\<rparr>,
        \<lparr>metricDate = 1704243600000, settersMetric.revenueGenerated = Some 25, settersMetric.newCashCollected = Some 5, settersMetric.recurringCashCollected = None, settersMetric.downsellRevenue = Some 0\<rparr>]
     = [(19723, Some \<lparr>bucket.revenueGenerated = 50, bucket.newCashCollected = 0,
                        bucket.recurringCashCollected = 20, bucket.downsellRevenue = 5\<rparr>),
        (19725, Some \<lparr>bucket.revenueGenerated = 125, bucket.newCashCollected = 65,
                        bucket.recurringCashCollected = 30, bucket.downsellRevenue = 10\<rparr>)]
   \<and> map fst (revenueOverTimeData 0
       [\<lparr>metricDate = 1704243600000, settersMetric.revenueGenerated = Some 25, settersMetric.newCashCollected = Some 5, settersMetric.recurringCashCollected = None, settersMetric.downsellRevenue = Some 0\<rparr>,
        \<lparr>metricDate = 1704067200000, settersMetric.revenueGenerated = Some 50, settersMetric.newCashCollected = None, settersMetric.recurringCashCollected = Some 20, settersMetric.downsellRevenue = Some 5\<rparr>,
        \<lparr>metricDate = 1704240000000, settersMetric.revenueGenerated = Some 100, settersMetric.newCashCollected = Some 60, settersMetric.recurringCashCollected = Some 30, settersMetric.downsellRevenue = Some 10\<rparr>]) = [19723, 19725]"
proof -
  let ?ms = "[\<lparr>metricDate = 1704240000000, settersMetric.revenueGenerated = Some 100, settersMetric.newCashCollected = Some 60, settersMetric.recurringCashCollected = Some 30, settersMetric.downsellRevenue = Some 10\<rparr>,
        \<lparr>metricDate = 1704067200000, settersMetric.revenueGenerated = Some 50, settersMetric.newCashCollected = None, settersMetric.recurringCashCollected = Some 20, settersMetric.downsellRevenue = Some 5\<rparr>,
        \<lparr>metricDate = 1704243600000, settersMetric.revenueGenerated = Some 25, settersMetric.newCashCollected = Some 5, settersMetric.recurringCashCollected = None, settersMetric.downsellRevenue = Some 0\<rparr>]"
  let ?ms' = "[\<lparr>metricDate = 1704243600000, settersMetric.revenueGenerated = Some 25, settersMetric.newCashCollected = Some 5, settersMetric.recurringCashCollected = None, settersMetric.downsellRevenue = Some 0\<rparr>,
        \<lparr>metricDate = 1704067200000, settersMetric.revenueGenerated = Some 50, settersMetric.newCashCollected = None, settersMetric.recurringCashCollected = Some 20, settersMetric.downsellRevenue = Some 5\<rparr>,
        \<lparr>metricDate = 1704240000000, settersMetric.revenueGenerated = Some 100, settersMetric.newCashCollected = Some 60, settersMetric.recurringCashCollected = Some 30, settersMetric.downsellRevenue = Some 10\<rparr>]"
  have p: "mset ?ms' = mset ?ms"
    by simp
  have e: "revenueOverTimeData 0 ?ms = [(19723, Some \<lparr>bucket.revenueGenerated = 50, bucket.newCashCollected = 0,
                        bucket.recurringCashCollected = 20, bucket.downsellRevenue = 5\<rparr>),
        (19725, Some \<lparr>bucket.revenueGenerated = 125, bucket.newCashCollected = 65,
                        bucket.recurringCashCollected = 30, bucket.downsellRevenue = 10\<rparr>)]"
    by (simp add: revenueOverTimeData_def sortedDates_def dailyRevenueData_def addMetric_def
        addToBucket_def emptyBucket_def safeNumber_def dayKey_def keyTime_def dayMs_def Let_def)
  from revenue_series_by_day [of 0 ?ms ?ms'] p
  have "revenueOverTimeData 0 ?ms' = revenueOverTimeData 0 ?ms"
    by blast
  with e show ?thesis by simp
qed

end
